theory Spec2Isabelle
  imports Complex_Main "HOL-Library.Monad_Syntax"
begin

section \<open>Four-lane vectors (fvec4, ivec4)\<close>

text \<open>
  The kernel of \<^verbatim>\<open>CpuNonbondedForce.cpp\<close> computes on \<^verbatim>\<open>fvec4\<close>, four floats
  handled lane by lane.  Single and double precision numbers are modelled as exact reals,
  and the kernels in exact real arithmetic; the rounding of single precision is made
  explicit in the periodic geometry, where a statement below depends on it.
\<close>

datatype fvec4 = FVec4 real real real real

datatype ivec4 = IVec4 int int int int

fun lane :: "fvec4 \<Rightarrow> nat \<Rightarrow> real" where
  "lane (FVec4 a b c d) i = (if i = 0 then a else if i = 1 then b else if i = 2 then c else d)"

fun ilane :: "ivec4 \<Rightarrow> nat \<Rightarrow> int" where
  "ilane (IVec4 a b c d) i = (if i = 0 then a else if i = 1 then b else if i = 2 then c else d)"

definition splat :: "real \<Rightarrow> fvec4" where
  "splat c = FVec4 c c c c"

fun vmap :: "(real \<Rightarrow> real) \<Rightarrow> fvec4 \<Rightarrow> fvec4" where
  "vmap f (FVec4 a b c d) = FVec4 (f a) (f b) (f c) (f d)"

fun vzip :: "(real \<Rightarrow> real \<Rightarrow> real) \<Rightarrow> fvec4 \<Rightarrow> fvec4 \<Rightarrow> fvec4" where
  "vzip f (FVec4 a b c d) (FVec4 a' b' c' d') = FVec4 (f a a') (f b b') (f c c') (f d d')"

instantiation fvec4 :: "{plus, minus, times, inverse}"
begin

definition plus_fvec4 :: "fvec4 \<Rightarrow> fvec4 \<Rightarrow> fvec4" where
  "plus_fvec4 u v = vzip (+) u v"

definition minus_fvec4 :: "fvec4 \<Rightarrow> fvec4 \<Rightarrow> fvec4" where
  "minus_fvec4 u v = vzip (-) u v"

definition times_fvec4 :: "fvec4 \<Rightarrow> fvec4 \<Rightarrow> fvec4" where
  "times_fvec4 u v = vzip (*) u v"

definition divide_fvec4 :: "fvec4 \<Rightarrow> fvec4 \<Rightarrow> fvec4" where
  "divide_fvec4 u v = vzip (/) u v"

definition inverse_fvec4 :: "fvec4 \<Rightarrow> fvec4" where
  "inverse_fvec4 u = vmap inverse u"

instance ..

end

definition vsqrt :: "fvec4 \<Rightarrow> fvec4" where
  "vsqrt v = vmap sqrt v"

text \<open>
  \<^verbatim>\<open>round\<close> and \<^verbatim>\<open>floor\<close> on vectors, and the conversion of a float vector to an \<^verbatim>\<open>ivec4\<close>,
  come from \<^verbatim>\<open>vectorize.h\<close>, which is not part of the sources at hand.  They are taken as the
  vector unit has them: \<^verbatim>\<open>round\<close> rounds to the nearest integer, a tie to the even one; the
  conversion to a 32-bit integer yields \<open>- 2\<^sup>3\<^sup>1\<close> for a value outside the range of \<^verbatim>\<open>int\<close>
  (C++ leaves that case undefined).
\<close>

definition roundEven :: "real \<Rightarrow> int" where
  "roundEven x =
     (let f = \<lfloor>x\<rfloor>; d = x - of_int f
      in if d < 1 / 2 then f else if 1 / 2 < d then f + 1 else if even f then f else f + 1)"

definition vround :: "fvec4 \<Rightarrow> fvec4" where
  "vround v = vmap (\<lambda>x. of_int (roundEven x)) v"

definition toInt32 :: "real \<Rightarrow> int" where
  "toInt32 x =
     (if - 2147483648 \<le> \<lfloor>x\<rfloor> \<and> \<lfloor>x\<rfloor> < 2147483648 then \<lfloor>x\<rfloor> else - 2147483648)"

text \<open>The table offset \<^verbatim>\<open>4*index[i]\<close> is computed on \<^verbatim>\<open>int\<close>; an overflow, which C++ leaves
  undefined, is taken to wrap around at 32 bits, as the hardware does.\<close>

definition wrap32 :: "int \<Rightarrow> int" where
  "wrap32 k = (k + 2147483648) mod 4294967296 - 2147483648"

fun vfloor :: "fvec4 \<Rightarrow> ivec4" where
  "vfloor (FVec4 a b c d) = IVec4 (toInt32 a) (toInt32 b) (toInt32 c) (toInt32 d)"

fun to_fvec4 :: "ivec4 \<Rightarrow> fvec4" where
  "to_fvec4 (IVec4 a b c d) = FVec4 (of_int a) (of_int b) (of_int c) (of_int d)"

text \<open>\<^verbatim>\<open>(r > c) & v\<close>: the comparison yields an all-ones or all-zeros lane mask, and the
  bitwise and keeps the lane of \<open>v\<close> or clears it to \<open>0\<close>.\<close>

definition vmask_gt :: "fvec4 \<Rightarrow> real \<Rightarrow> fvec4 \<Rightarrow> fvec4" where
  "vmask_gt r c v = vzip (\<lambda>ri vi. if ri > c then vi else 0) r v"

definition dot4 :: "fvec4 \<Rightarrow> fvec4 \<Rightarrow> real" where
  "dot4 u v = lane u 0 * lane v 0 + lane u 1 * lane v 1 + lane u 2 * lane v 2 + lane u 3 * lane v 3"

text \<open>\<^verbatim>\<open>transpose(a, b, c, d)\<close> transposes the 4x4 matrix whose rows are its arguments, in place.\<close>

definition transpose4 :: "fvec4 \<times> fvec4 \<times> fvec4 \<times> fvec4 \<Rightarrow> fvec4 \<times> fvec4 \<times> fvec4 \<times> fvec4" where
  "transpose4 m = (case m of (a, b, c, d) \<Rightarrow>
     (FVec4 (lane a 0) (lane b 0) (lane c 0) (lane d 0),
      FVec4 (lane a 1) (lane b 1) (lane c 1) (lane d 1),
      FVec4 (lane a 2) (lane b 2) (lane c 2) (lane d 2),
      FVec4 (lane a 3) (lane b 3) (lane c 3) (lane d 3)))"

text \<open>A \<^verbatim>\<open>float*\<close> is a view of memory: offsets to values.  \<^verbatim>\<open>fvec4(p)\<close> loads four
  consecutive floats, \<^verbatim>\<open>v.store(p)\<close> writes them.\<close>

type_synonym buffer = "nat \<Rightarrow> real"

definition loadv :: "buffer \<Rightarrow> nat \<Rightarrow> fvec4" where
  "loadv p k = FVec4 (p k) (p (k + 1)) (p (k + 2)) (p (k + 3))"

definition storev :: "fvec4 \<Rightarrow> buffer \<Rightarrow> nat \<Rightarrow> buffer" where
  "storev v p k = p(k := lane v 0, k + 1 := lane v 1, k + 2 := lane v 2, k + 3 := lane v 3)"

section \<open>The force object\<close>

text \<open>\<^verbatim>\<open>CpuNeighborList\<close> belongs to another file; only its accessors are used here.
  An exclusion flag is a \<^verbatim>\<open>char\<close> of which bits 0..3 are read.\<close>

record CpuNeighborList =
  getNumBlocks :: nat
  getSortedAtoms :: "nat list"
  getBlockNeighbors :: "nat \<Rightarrow> nat list"
  getBlockExclusions :: "nat \<Rightarrow> int list"

text \<open>
  The members of \<^verbatim>\<open>class CpuNonbondedForce\<close>.  A \<^verbatim>\<open>std::set<int>\<close> of excluded
  partners is the list of its elements in iteration order.  \<open>ONE_4PI_EPS0\<close> is a macro of
  \<^verbatim>\<open>SimTKOpenMMRealType.h\<close>, which is not among the sources; it is carried as a parameter.
\<close>

record CpuNonbondedForce =
  cutoff :: bool
  useSwitch :: bool
  periodic :: bool
  ewald :: bool
  pme :: bool
  cutoffDistance :: real
  switchingDistance :: real
  krf :: real
  crf :: real
  alphaEwald :: real
  periodicBoxSize :: "nat \<Rightarrow> real"
  numRx :: int
  numRy :: int
  numRz :: int
  meshDim :: "nat \<Rightarrow> int"
  ewaldDX :: real
  ewaldDXInv :: real
  ewaldScaleTable :: "real list"
  neighborList :: CpuNeighborList
  numberOfAtoms :: nat
  posq :: buffer
  atomCoordinates :: "nat \<Rightarrow> nat \<Rightarrow> real"
  atomParameters :: "nat \<Rightarrow> real \<times> real"
  exclusions :: "nat \<Rightarrow> nat list"
  includeEnergy :: bool
  threadEnergy :: "real list"
  threadForce :: "buffer list"
  ONE_4PI_EPS0 :: real

definition TWO_OVER_SQRT_PI :: real where
  "TWO_OVER_SQRT_PI = 2 / sqrt pi"

definition NUM_TABLE_POINTS :: nat where
  "NUM_TABLE_POINTS = 1025"


section \<open>Configuration\<close>

text \<open>
  \<^verbatim>\<open>setUseCutoff\<close> (lines 75-82).  \<^verbatim>\<open>pow(cutoffDistance, -3.0f)\<close> is the reciprocal of the
  cube.  Where a divisor is zero the float code produces an infinity or a NaN; these are not
  real numbers, so there the model has no value (\<open>None\<close>).
\<close>

definition setUseCutoff ::
    "CpuNonbondedForce \<Rightarrow> real \<Rightarrow> CpuNeighborList \<Rightarrow> real \<Rightarrow> CpuNonbondedForce option" where
  "setUseCutoff s distance neighbors solventDielectric =
     (if distance = 0 \<or> 2 * solventDielectric + 1 = 0 then None
      else Some (s\<lparr>cutoff := True, cutoffDistance := distance, neighborList := neighbors,
        krf := (1 / distance ^ 3) * (solventDielectric - 1) / (2 * solventDielectric + 1),
        crf := (1 / distance) * (3 * solventDielectric) / (2 * solventDielectric + 1)\<rparr>))"

definition setUseSwitchingFunction :: "CpuNonbondedForce \<Rightarrow> real \<Rightarrow> CpuNonbondedForce" where
  "setUseSwitchingFunction s distance = s\<lparr>useSwitch := True, switchingDistance := distance\<rparr>"


section \<open>The Ewald scale table\<close>

text \<open>
  \<^verbatim>\<open>tabulateEwaldScaleFactor\<close> (lines 158-178).  \<^verbatim>\<open>erfc\<close> is the C library's and
  \<^verbatim>\<open>SplineFitter::createNaturalSpline\<close> lives in another file: both are parameters.
  The first loop fills the sample vectors \<open>x\<close> and \<open>y\<close> (\<open>ewaldSamples\<close>), the second
  the table (\<open>ewaldTable\<close>, where \<open>dx\<close> is \<^verbatim>\<open>ewaldDX\<close>).  With a zero cutoff distance
  \<^verbatim>\<open>ewaldDXInv\<close> is a division by zero, hence \<open>None\<close>.
\<close>

definition ewaldSamples :: "(real \<Rightarrow> real) \<Rightarrow> CpuNonbondedForce \<Rightarrow> real list \<times> real list" where
  "ewaldSamples erfc s =
     (map (\<lambda>i. real i * cutoffDistance s / real (NUM_TABLE_POINTS - 2)) [0..<NUM_TABLE_POINTS + 1],
      map (\<lambda>i. let r = real i * cutoffDistance s / real (NUM_TABLE_POINTS - 2);
                   alphaR = alphaEwald s * r
               in erfc alphaR + TWO_OVER_SQRT_PI * alphaR * exp (- alphaR * alphaR))
        [0..<NUM_TABLE_POINTS + 1])"

text \<open>\<^verbatim>\<open>vector::resize(n)\<close>: keep a prefix, pad with zeros.\<close>

definition resize :: "real list \<Rightarrow> nat \<Rightarrow> real list" where
  "resize xs n = take n xs @ replicate (n - length xs) 0"

definition ewaldTable ::
    "(real \<Rightarrow> real) \<Rightarrow> (real list \<Rightarrow> real list \<Rightarrow> real list) \<Rightarrow> CpuNonbondedForce \<Rightarrow> real list" where
  "ewaldTable erfc createNaturalSpline s =
     (let dx = cutoffDistance s / real (NUM_TABLE_POINTS - 2);
          (x, y) = ewaldSamples erfc s;
          deriv = createNaturalSpline x y
      in fold (\<lambda>i t. t[4 * i := y ! i,
                         4 * i + 1 := y ! (i + 1),
                         4 * i + 2 := deriv ! i * dx * dx / 6,
                         4 * i + 3 := deriv ! (i + 1) * dx * dx / 6])
           [0..<NUM_TABLE_POINTS] (resize (ewaldScaleTable s) (4 * NUM_TABLE_POINTS)))"

definition tabulateEwaldScaleFactor ::
    "(real \<Rightarrow> real) \<Rightarrow> (real list \<Rightarrow> real list \<Rightarrow> real list) \<Rightarrow> CpuNonbondedForce \<Rightarrow>
     CpuNonbondedForce option" where
  "tabulateEwaldScaleFactor erfc createNaturalSpline s =
     (let dx = cutoffDistance s / real (NUM_TABLE_POINTS - 2)
      in if dx = 0 then None
         else Some (s\<lparr>ewaldDX := dx, ewaldDXInv := 1 / dx,
                      ewaldScaleTable := ewaldTable erfc createNaturalSpline s\<rparr>))"


definition setUsePME ::
    "(real \<Rightarrow> real) \<Rightarrow> (real list \<Rightarrow> real list \<Rightarrow> real list) \<Rightarrow> CpuNonbondedForce \<Rightarrow>
     real \<Rightarrow> (nat \<Rightarrow> int) \<Rightarrow> CpuNonbondedForce option" where
  "setUsePME erfc createNaturalSpline s alpha meshSize =
     tabulateEwaldScaleFactor erfc createNaturalSpline
       (s\<lparr>alphaEwald := alpha,
          meshDim := (meshDim s)(0 := meshSize 0, 1 := meshSize 1, 2 := meshSize 2),
          pme := True\<rparr>)"

text \<open>\<^verbatim>\<open>fvec4(&ewaldScaleTable[k])\<close>.  The offset is an \<^verbatim>\<open>int\<close>; a negative one, or one beyond
  the end, reads outside the vector, which C++ leaves undefined: the statements below are
  about offsets inside the table.\<close>

definition loadTable :: "real list \<Rightarrow> int \<Rightarrow> fvec4" where
  "loadTable t k = FVec4 (t ! nat k) (t ! nat (k + 1)) (t ! nat (k + 2)) (t ! nat (k + 3))"

text \<open>
  \<^verbatim>\<open>ewaldScaleFunction\<close> (lines 693-710).  The local \<^verbatim>\<open>float y[4]\<close> is not initialised:
  its incoming content is whatever the stack holds, the parameter \<open>y\<close>.  The loop over the
  four lanes is written out.
\<close>

definition ewaldScaleFunction :: "CpuNonbondedForce \<Rightarrow> fvec4 \<Rightarrow> fvec4 \<Rightarrow> fvec4" where
  "ewaldScaleFunction s y x =
     (let x1 = x * splat (ewaldDXInv s);
          index = vfloor x1;
          coeff1 = x1 - to_fvec4 index;
          coeff0 = splat 1 - coeff1;
          coeff2 = coeff0 * coeff0 * coeff0 - coeff0;
          coeff3 = coeff1 * coeff1 * coeff1 - coeff1;
          (c0, c1, c2, c3) = transpose4 (coeff0, coeff1, coeff2, coeff3);
          y0 = (if ilane index 0 < int NUM_TABLE_POINTS
                then dot4 c0 (loadTable (ewaldScaleTable s) (wrap32 (4 * ilane index 0))) else lane y 0);
          y1 = (if ilane index 1 < int NUM_TABLE_POINTS
                then dot4 c1 (loadTable (ewaldScaleTable s) (wrap32 (4 * ilane index 1))) else lane y 1);
          y2 = (if ilane index 2 < int NUM_TABLE_POINTS
                then dot4 c2 (loadTable (ewaldScaleTable s) (wrap32 (4 * ilane index 2))) else lane y 2);
          y3 = (if ilane index 3 < int NUM_TABLE_POINTS
                then dot4 c3 (loadTable (ewaldScaleTable s) (wrap32 (4 * ilane index 3))) else lane y 3)
      in FVec4 y0 y1 y2 y3)"

text \<open>\<^verbatim>\<open>erfcApprox\<close> (lines 681-691).\<close>

definition erfcApprox :: "fvec4 \<Rightarrow> fvec4" where
  "erfcApprox x =
     (let t = splat 1 + (splat 0.0705230784 + (splat 0.0422820123 + (splat 0.0092705272
                + (splat 0.0001520143 + (splat 0.0002765672 + splat 0.0000430638 * x) * x) * x) * x) * x) * x;
          t = t * t;
          t = t * t;
          t = t * t
      in splat 1 / (t * t))"

section \<open>Single precision\<close>

text \<open>
  The kernels are modelled in exact real arithmetic.  Where a statement depends on the
  rounding of \<^verbatim>\<open>float\<close> operations, the operations are followed by a rounding function
  \<open>fl\<close>; \<open>float32\<close> is the rounding to the nearest number with a significand of 24 bits, a
  tie to the even one.  The exponent range (overflow, subnormal numbers) is not modelled.
  \<open>exponent2 x\<close> is the integer \<open>e\<close> with \<open>2\<^sup>e \<le> x < 2\<^sup>e\<^sup>+\<^sup>1\<close>, for positive \<open>x\<close>.
\<close>

fun ilog2 :: "nat \<Rightarrow> nat" where
  "ilog2 n = (if n < 2 then 0 else Suc (ilog2 (n div 2)))"

declare ilog2.simps [simp del]

definition exponent2 :: "real \<Rightarrow> int" where
  "exponent2 x =
     (if 1 \<le> x then int (ilog2 (nat \<lfloor>x\<rfloor>)) else - int (Suc (ilog2 (nat (\<lceil>1 / x\<rceil> - 1)))))"

definition float32 :: "real \<Rightarrow> real" where
  "float32 x =
     (if x = 0 then 0
      else
       (let e = exponent2 \<bar>x\<bar> - 23;
            u = (if 0 \<le> e then 2 ^ nat e else 1 / 2 ^ nat (- e))
        in of_int (roundEven (x / u)) * u))"

section \<open>Periodic geometry\<close>

text \<open>
  \<^verbatim>\<open>getDeltaR\<close> for one pair (lines 660-667): returns \<open>deltaR\<close> and \<open>r2\<close>.  Every float
  operation is followed by the rounding \<open>fl\<close>; the order of the additions in \<^verbatim>\<open>dot3\<close> is
  that of \<^verbatim>\<open>vectorize.h\<close> and is taken left to right.
\<close>

definition dot3_fl :: "(real \<Rightarrow> real) \<Rightarrow> fvec4 \<Rightarrow> fvec4 \<Rightarrow> real" where
  "dot3_fl fl u v =
     fl (fl (fl (lane u 0 * lane v 0) + fl (lane u 1 * lane v 1)) + fl (lane u 2 * lane v 2))"

definition getDeltaR_fl ::
    "(real \<Rightarrow> real) \<Rightarrow> fvec4 \<Rightarrow> fvec4 \<Rightarrow> bool \<Rightarrow> fvec4 \<Rightarrow> fvec4 \<Rightarrow> fvec4 \<times> real" where
  "getDeltaR_fl fl posI posJ periodic' boxSize invBoxSize =
     (let deltaR = vmap fl (posJ - posI);
          deltaR = (if periodic' then
                      (let base = vmap fl (vround (vmap fl (deltaR * invBoxSize)) * boxSize)
                       in vmap fl (deltaR - base))
                    else deltaR)
      in (deltaR, dot3_fl fl deltaR deltaR))"

text \<open>\<^verbatim>\<open>getDeltaR\<close> for a block (lines 669-679): returns \<open>dx\<close>, \<open>dy\<close>, \<open>dz\<close> and \<open>r2\<close>.\<close>

definition getDeltaR_block_fl ::
    "(real \<Rightarrow> real) \<Rightarrow> fvec4 \<Rightarrow> fvec4 \<Rightarrow> fvec4 \<Rightarrow> fvec4 \<Rightarrow> bool \<Rightarrow> fvec4 \<Rightarrow> fvec4 \<Rightarrow>
     fvec4 \<times> fvec4 \<times> fvec4 \<times> fvec4" where
  "getDeltaR_block_fl fl posI x y z periodic' boxSize invBoxSize =
     (let dx = vmap fl (x - splat (lane posI 0));
          dy = vmap fl (y - splat (lane posI 1));
          dz = vmap fl (z - splat (lane posI 2));
          dx = (if periodic' then
                  vmap fl (dx - vmap fl (vround (vmap fl (dx * splat (lane invBoxSize 0)))
                                           * splat (lane boxSize 0)))
                else dx);
          dy = (if periodic' then
                  vmap fl (dy - vmap fl (vround (vmap fl (dy * splat (lane invBoxSize 1)))
                                           * splat (lane boxSize 1)))
                else dy);
          dz = (if periodic' then
                  vmap fl (dz - vmap fl (vround (vmap fl (dz * splat (lane invBoxSize 2)))
                                           * splat (lane boxSize 2)))
                else dz)
      in (dx, dy, dz,
          vmap fl (vmap fl (vmap fl (dx * dx) + vmap fl (dy * dy)) + vmap fl (dz * dz))))"

text \<open>The box vectors every worker builds (lines 340-341); the reciprocals are float
  divisions.\<close>

definition boxVectors_fl :: "(real \<Rightarrow> real) \<Rightarrow> CpuNonbondedForce \<Rightarrow> fvec4 \<times> fvec4" where
  "boxVectors_fl fl s =
     (FVec4 (periodicBoxSize s 0) (periodicBoxSize s 1) (periodicBoxSize s 2) 0,
      FVec4 (fl (1 / periodicBoxSize s 0)) (fl (1 / periodicBoxSize s 1))
            (fl (1 / periodicBoxSize s 2)) 0)"

text \<open>In exact arithmetic nothing is rounded: these are what the kernels below use.\<close>

definition getDeltaR :: "fvec4 \<Rightarrow> fvec4 \<Rightarrow> bool \<Rightarrow> fvec4 \<Rightarrow> fvec4 \<Rightarrow> fvec4 \<times> real" where
  "getDeltaR posI posJ periodic' boxSize invBoxSize =
     getDeltaR_fl (\<lambda>x. x) posI posJ periodic' boxSize invBoxSize"

definition getDeltaR_block ::
    "fvec4 \<Rightarrow> fvec4 \<Rightarrow> fvec4 \<Rightarrow> fvec4 \<Rightarrow> bool \<Rightarrow> fvec4 \<Rightarrow> fvec4 \<Rightarrow> fvec4 \<times> fvec4 \<times> fvec4 \<times> fvec4" where
  "getDeltaR_block posI x y z periodic' boxSize invBoxSize =
     getDeltaR_block_fl (\<lambda>x. x) posI x y z periodic' boxSize invBoxSize"

definition boxVectors :: "CpuNonbondedForce \<Rightarrow> fvec4 \<times> fvec4" where
  "boxVectors s = boxVectors_fl (\<lambda>x. x) s"

section \<open>The pair kernel\<close>

text \<open>
  In the kernels below a division by zero (coincident atoms, a switching interval of width
  zero, a box of width zero) is not guarded by the code and yields an infinity or a NaN
  there; the model computes in the reals, and the statements about computed values are
  meant for inputs on which no such division occurs.

  The switching factor and its derivative for one pair (lines 406-411).
\<close>

definition switchOne :: "CpuNonbondedForce \<Rightarrow> real \<Rightarrow> real \<times> real" where
  "switchOne s r =
     (if useSwitch s \<and> r > switchingDistance s then
        (let t = (r - switchingDistance s) / (cutoffDistance s - switchingDistance s)
         in (1 + t * t * t * (- 10 + t * (15 - t * 6)),
             t * t * (- 30 + t * (60 - t * 30)) / (cutoffDistance s - switchingDistance s)))
      else (1, 0))"

text \<open>
  \<^verbatim>\<open>calculateOneIxn\<close> (lines 394-446).  \<^verbatim>\<open>totalEnergy\<close> is a pointer that may be null:
  an optional accumulator.
\<close>

definition calculateOneIxn ::
    "CpuNonbondedForce \<Rightarrow> nat \<Rightarrow> nat \<Rightarrow> fvec4 \<Rightarrow> fvec4 \<Rightarrow> buffer \<times> real option \<Rightarrow> buffer \<times> real option" where
  "calculateOneIxn s ii jj boxSize invBoxSize st =
     (case st of (forces, totalEnergy) \<Rightarrow>
       (let posI = loadv (posq s) (4 * ii);
            posJ = loadv (posq s) (4 * jj);
            (deltaR, r2) = getDeltaR posJ posI (periodic s) boxSize invBoxSize
        in if cutoff s \<and> r2 \<ge> cutoffDistance s * cutoffDistance s then (forces, totalEnergy)
           else
            (let r = sqrt r2;
                 inverseR = 1 / r;
                 (switchValue, switchDeriv) = switchOne s r;
                 sig = fst (atomParameters s ii) + fst (atomParameters s jj);
                 sig2 = inverseR * sig;
                 sig2 = sig2 * sig2;
                 sig6 = sig2 * sig2 * sig2;
                 eps = snd (atomParameters s ii) * snd (atomParameters s jj);
                 dEdR = switchValue * eps * (12 * sig6 - 6) * sig6;
                 chargeProd = ONE_4PI_EPS0 s * posq s (4 * ii + 3) * posq s (4 * jj + 3);
                 dEdR = (if cutoff s then dEdR + chargeProd * (inverseR - 2 * krf s * r2)
                         else dEdR + chargeProd * inverseR);
                 dEdR = dEdR * (inverseR * inverseR);
                 energy = eps * (sig6 - 1) * sig6;
                 dEdR = (if useSwitch s then dEdR - energy * switchDeriv * inverseR else dEdR);
                 energy = (if useSwitch s then energy * switchValue else energy);
                 totalEnergy =
                   (case totalEnergy of
                      None \<Rightarrow> None
                    | Some e \<Rightarrow>
                        Some (e + (if cutoff s then energy + chargeProd * (inverseR + krf s * r2 - crf s)
                                   else energy + chargeProd * inverseR)));
                 result = deltaR * splat dEdR;
                 forces = storev (loadv forces (4 * ii) + result) forces (4 * ii);
                 forces = storev (loadv forces (4 * jj) - result) forces (4 * jj)
             in (forces, totalEnergy))))"

section \<open>The blocked kernels\<close>

text \<open>The block's atoms and their parameters, gathered into lanes (lines 451-464 and,
  identically, 561-574).\<close>

record block =
  blockAtom :: "nat \<Rightarrow> nat"
  blockAtomPosq :: "nat \<Rightarrow> fvec4"
  blockAtomX :: fvec4
  blockAtomY :: fvec4
  blockAtomZ :: fvec4
  blockAtomCharge :: fvec4
  blockAtomSigma :: fvec4
  blockAtomEpsilon :: fvec4

definition loadBlock :: "CpuNonbondedForce \<Rightarrow> nat \<Rightarrow> block" where
  "loadBlock s blockIndex =
     (let atom = (\<lambda>i. getSortedAtoms (neighborList s) ! (4 * blockIndex + i));
          pq = (\<lambda>i. loadv (posq s) (4 * atom i))
      in \<lparr>blockAtom = atom,
          blockAtomPosq = pq,
          blockAtomX = FVec4 (lane (pq 0) 0) (lane (pq 1) 0) (lane (pq 2) 0) (lane (pq 3) 0),
          blockAtomY = FVec4 (lane (pq 0) 1) (lane (pq 1) 1) (lane (pq 2) 1) (lane (pq 3) 1),
          blockAtomZ = FVec4 (lane (pq 0) 2) (lane (pq 1) 2) (lane (pq 2) 2) (lane (pq 3) 2),
          blockAtomCharge = splat (ONE_4PI_EPS0 s)
             * FVec4 (lane (pq 0) 3) (lane (pq 1) 3) (lane (pq 2) 3) (lane (pq 3) 3),
          blockAtomSigma = FVec4 (fst (atomParameters s (atom 0))) (fst (atomParameters s (atom 1)))
             (fst (atomParameters s (atom 2))) (fst (atomParameters s (atom 3))),
          blockAtomEpsilon = FVec4 (snd (atomParameters s (atom 0))) (snd (atomParameters s (atom 1)))
             (snd (atomParameters s (atom 2))) (snd (atomParameters s (atom 3)))\<rparr>)"

text \<open>Whether some block atom lies within the cutoff of a box face (lines 467-472, 576-581).\<close>

definition nearBoxFace :: "CpuNonbondedForce \<Rightarrow> block \<Rightarrow> fvec4 \<Rightarrow> bool" where
  "nearBoxFace s b boxSize =
     list_ex (\<lambda>i. list_ex (\<lambda>j. lane (blockAtomPosq b i) j - cutoffDistance s < 0
                              \<or> lane (blockAtomPosq b i) j + cutoffDistance s > lane boxSize j) [0, 1, 2])
       [0, 1, 2, 3]"

text \<open>The switching factor and its derivative, per lane (lines 502-507 and 610-615).\<close>

definition switchBlock :: "CpuNonbondedForce \<Rightarrow> fvec4 \<Rightarrow> fvec4 \<times> fvec4" where
  "switchBlock s r =
     (if useSwitch s then
        (let t = vmask_gt r (switchingDistance s)
                   ((r - splat (switchingDistance s)) / splat (cutoffDistance s - switchingDistance s))
         in (splat 1 + t * t * t * (splat (- 10) + t * (splat 15 - t * splat 6)),
             t * t * (splat (- 30) + t * (splat 60 - t * splat 30))
               / splat (cutoffDistance s - switchingDistance s)))
      else (splat 1, splat 0))"

fun nth4 :: "'a \<times> 'a \<times> 'a \<times> 'a \<Rightarrow> nat \<Rightarrow> 'a" where
  "nth4 (a, b, c, d) j = (if j = 0 then a else if j = 1 then b else if j = 2 then c else d)"

text \<open>The two accumulation loops over the lanes (lines 533-535 and 543-548).\<close>

definition accumulateEnergy :: "(nat \<Rightarrow> bool) \<Rightarrow> fvec4 \<Rightarrow> real \<Rightarrow> real" where
  "accumulateEnergy include energy e =
     fold (\<lambda>j e. if include j then e + lane energy j else e) [0, 1, 2, 3] e"

definition accumulateForces ::
    "(nat \<Rightarrow> bool) \<Rightarrow> fvec4 \<times> fvec4 \<times> fvec4 \<times> fvec4 \<Rightarrow> (nat \<Rightarrow> fvec4) \<times> fvec4 \<Rightarrow> (nat \<Rightarrow> fvec4) \<times> fvec4" where
  "accumulateForces include result st =
     fold (\<lambda>j (blockAtomForce, atomForce).
             if include j then (blockAtomForce(j := blockAtomForce j + nth4 result j),
                                atomForce - nth4 result j)
             else (blockAtomForce, atomForce)) [0, 1, 2, 3] st"

text \<open>One turn of the neighbour loop of \<^verbatim>\<open>calculateBlockIxn\<close> (lines 481-549), for the
  neighbour \<open>atom\<close> with exclusion flags \<open>excl\<close>.\<close>

definition blockNeighborIxn ::
    "CpuNonbondedForce \<Rightarrow> block \<Rightarrow> bool \<Rightarrow> fvec4 \<Rightarrow> fvec4 \<Rightarrow> nat \<Rightarrow> int \<Rightarrow>
     (nat \<Rightarrow> fvec4) \<times> buffer \<times> real option \<Rightarrow> (nat \<Rightarrow> fvec4) \<times> buffer \<times> real option" where
  "blockNeighborIxn s b needPeriodic boxSize invBoxSize atom excl st =
     (case st of (blockAtomForce, forces, totalEnergy) \<Rightarrow>
       (let atomPosq = loadv (posq s) (4 * atom);
            (dx, dy, dz, r2) = getDeltaR_block atomPosq (blockAtomX b) (blockAtomY b) (blockAtomZ b)
                                 needPeriodic boxSize invBoxSize;
            include = (\<lambda>j. \<not> bit excl j
                           \<and> (\<not> cutoff s \<or> lane r2 j < cutoffDistance s * cutoffDistance s));
            any = (include 0 \<or> include 1 \<or> include 2 \<or> include 3)
        in if \<not> any then (blockAtomForce, forces, totalEnergy)
           else
            (let r = vsqrt r2;
                 inverseR = splat 1 / r;
                 (switchValue, switchDeriv) = switchBlock s r;
                 sig = blockAtomSigma b + splat (fst (atomParameters s atom));
                 sig2 = inverseR * sig;
                 sig2 = sig2 * sig2;
                 sig6 = sig2 * sig2 * sig2;
                 eps = blockAtomEpsilon b * splat (snd (atomParameters s atom));
                 dEdR = switchValue * eps * (splat 12 * sig6 - splat 6) * sig6;
                 chargeProd = blockAtomCharge b * splat (posq s (4 * atom + 3));
                 dEdR = (if cutoff s then dEdR + chargeProd * (inverseR - splat (2 * krf s) * r2)
                         else dEdR + chargeProd * inverseR);
                 dEdR = dEdR * (inverseR * inverseR);
                 energy = eps * (sig6 - splat 1) * sig6;
                 dEdR = (if useSwitch s then dEdR - energy * switchDeriv * inverseR else dEdR);
                 energy = (if useSwitch s then energy * switchValue else energy);
                 totalEnergy =
                   (case totalEnergy of
                      None \<Rightarrow> None
                    | Some e \<Rightarrow>
                        Some (accumulateEnergy include
                          (if cutoff s then energy + chargeProd * (inverseR + splat (krf s) * r2 - splat (crf s))
                           else energy + chargeProd * inverseR) e));
                 result = transpose4 (dx * dEdR, dy * dEdR, dz * dEdR, splat 0);
                 (blockAtomForce, atomForce) =
                    accumulateForces include result (blockAtomForce, loadv forces (4 * atom))
             in (blockAtomForce, storev atomForce forces (4 * atom), totalEnergy))))"

text \<open>Writing the block atoms' forces back (lines 554-555, 656-657).\<close>

definition recordBlockForces :: "block \<Rightarrow> (nat \<Rightarrow> fvec4) \<Rightarrow> buffer \<Rightarrow> buffer" where
  "recordBlockForces b blockAtomForce forces =
     fold (\<lambda>j f. storev (loadv f (4 * blockAtom b j) + blockAtomForce j) f (4 * blockAtom b j))
       [0, 1, 2, 3] forces"

text \<open>\<^verbatim>\<open>calculateBlockIxn\<close> (lines 448-556).\<close>

definition calculateBlockIxn ::
    "CpuNonbondedForce \<Rightarrow> nat \<Rightarrow> fvec4 \<Rightarrow> fvec4 \<Rightarrow> buffer \<times> real option \<Rightarrow> buffer \<times> real option" where
  "calculateBlockIxn s blockIndex boxSize invBoxSize st =
     (case st of (forces, totalEnergy) \<Rightarrow>
       (let b = loadBlock s blockIndex;
            needPeriodic = (if periodic s then nearBoxFace s b boxSize else False);
            neighbors = getBlockNeighbors (neighborList s) blockIndex;
            blockExcl = getBlockExclusions (neighborList s) blockIndex;
            (blockAtomForce, forces, totalEnergy) =
               fold (\<lambda>i. blockNeighborIxn s b needPeriodic boxSize invBoxSize
                            (neighbors ! i) (blockExcl ! i))
                 [0..<length neighbors] (\<lambda>j. splat 0, forces, totalEnergy)
        in (recordBlockForces b blockAtomForce forces, totalEnergy)))"

text \<open>One turn of the neighbour loop of \<^verbatim>\<open>calculateBlockEwaldIxn\<close> (lines 589-652); \<open>y\<close> is
  the stack content that \<^verbatim>\<open>ewaldScaleFunction\<close> finds in its uninitialised array.\<close>

definition blockNeighborEwaldIxn ::
    "CpuNonbondedForce \<Rightarrow> fvec4 \<Rightarrow> block \<Rightarrow> bool \<Rightarrow> fvec4 \<Rightarrow> fvec4 \<Rightarrow> nat \<Rightarrow> int \<Rightarrow>
     (nat \<Rightarrow> fvec4) \<times> buffer \<times> real option \<Rightarrow> (nat \<Rightarrow> fvec4) \<times> buffer \<times> real option" where
  "blockNeighborEwaldIxn s y b needPeriodic boxSize invBoxSize atom excl st =
     (case st of (blockAtomForce, forces, totalEnergy) \<Rightarrow>
       (let atomPosq = loadv (posq s) (4 * atom);
            (dx, dy, dz, r2) = getDeltaR_block atomPosq (blockAtomX b) (blockAtomY b) (blockAtomZ b)
                                 needPeriodic boxSize invBoxSize;
            include = (\<lambda>j. \<not> bit excl j \<and> lane r2 j < cutoffDistance s * cutoffDistance s);
            any = (include 0 \<or> include 1 \<or> include 2 \<or> include 3)
        in if \<not> any then (blockAtomForce, forces, totalEnergy)
           else
            (let r = vsqrt r2;
                 inverseR = splat 1 / r;
                 (switchValue, switchDeriv) = switchBlock s r;
                 chargeProd = blockAtomCharge b * splat (posq s (4 * atom + 3));
                 dEdR = chargeProd * inverseR * ewaldScaleFunction s y r;
                 sig = blockAtomSigma b + splat (fst (atomParameters s atom));
                 sig2 = inverseR * sig;
                 sig2 = sig2 * sig2;
                 sig6 = sig2 * sig2 * sig2;
                 eps = blockAtomEpsilon b * splat (snd (atomParameters s atom));
                 dEdR = dEdR + switchValue * eps * (splat 12 * sig6 - splat 6) * sig6;
                 dEdR = dEdR * (inverseR * inverseR);
                 energy = eps * (sig6 - splat 1) * sig6;
                 dEdR = (if useSwitch s then dEdR - energy * switchDeriv * inverseR else dEdR);
                 energy = (if useSwitch s then energy * switchValue else energy);
                 totalEnergy =
                   (case totalEnergy of
                      None \<Rightarrow> None
                    | Some e \<Rightarrow>
                        Some (accumulateEnergy include
                          (energy + chargeProd * inverseR * erfcApprox (splat (alphaEwald s) * r)) e));
                 result = transpose4 (dx * dEdR, dy * dEdR, dz * dEdR, splat 0);
                 (blockAtomForce, atomForce) =
                    accumulateForces include result (blockAtomForce, loadv forces (4 * atom))
             in (blockAtomForce, storev atomForce forces (4 * atom), totalEnergy))))"

text \<open>\<^verbatim>\<open>calculateBlockEwaldIxn\<close> (lines 558-658); \<open>ys i\<close> is the stack content met at the
  \<open>i\<close>-th neighbour.\<close>

definition calculateBlockEwaldIxn ::
    "CpuNonbondedForce \<Rightarrow> (nat \<Rightarrow> fvec4) \<Rightarrow> nat \<Rightarrow> fvec4 \<Rightarrow> fvec4 \<Rightarrow> buffer \<times> real option \<Rightarrow>
     buffer \<times> real option" where
  "calculateBlockEwaldIxn s ys blockIndex boxSize invBoxSize st =
     (case st of (forces, totalEnergy) \<Rightarrow>
       (let b = loadBlock s blockIndex;
            needPeriodic = nearBoxFace s b boxSize;
            neighbors = getBlockNeighbors (neighborList s) blockIndex;
            blockExcl = getBlockExclusions (neighborList s) blockIndex;
            (blockAtomForce, forces, totalEnergy) =
               fold (\<lambda>i. blockNeighborEwaldIxn s (ys i) b needPeriodic boxSize invBoxSize
                            (neighbors ! i) (blockExcl ! i))
                 [0..<length neighbors] (\<lambda>j. splat 0, forces, totalEnergy)
        in (recordBlockForces b blockAtomForce forces, totalEnergy)))"


section \<open>Workers and reduction\<close>

text \<open>
  \<^verbatim>\<open>for (int i = threadIndex; i < n; i += numThreads)\<close>: the round-robin loop of a worker,
  over an arbitrary body.  With \<open>numThreads = 0\<close> it would not end, so it is a partial
  function and that it returns is proved below.
\<close>

partial_function (option) strideLoop ::
    "(nat \<Rightarrow> 's \<Rightarrow> 's) \<Rightarrow> nat \<Rightarrow> nat \<Rightarrow> nat \<Rightarrow> 's \<Rightarrow> 's option" where
  "strideLoop body numThreads n i s =
     (if i < n then strideLoop body numThreads n (i + numThreads) (body i s) else Some s)"

text \<open>\<^verbatim>\<open>for (int j = i+1; j < numberOfAtoms; j++) if (exclusions[j].find(i) == exclusions[j].end()) ...\<close>
  (lines 387-389), over an arbitrary body.\<close>

function pairLoop ::
    "(nat \<Rightarrow> nat \<Rightarrow> 's \<Rightarrow> 's) \<Rightarrow> (nat \<Rightarrow> nat list) \<Rightarrow> nat \<Rightarrow> nat \<Rightarrow> nat \<Rightarrow> 's \<Rightarrow> 's" where
  "pairLoop body excl n i j s =
     (if j < n then pairLoop body excl n i (j + 1) (if i \<notin> set (excl j) then body i j s else s)
      else s)"
  by pat_completeness auto
termination
  by (relation "measure (\<lambda>(body, excl, n, i, j, s). n - j)") auto

text \<open>The iteration over \<^verbatim>\<open>exclusions[i]\<close> with the test \<^verbatim>\<open>*iter > i\<close> (lines 354-356), over
  an arbitrary body.\<close>

fun exclusionLoop :: "(nat \<Rightarrow> nat \<Rightarrow> 's \<Rightarrow> 's) \<Rightarrow> nat \<Rightarrow> nat list \<Rightarrow> 's \<Rightarrow> 's" where
  "exclusionLoop body i [] s = s"
| "exclusionLoop body i (iter # rest) s =
     exclusionLoop body i rest (if iter > i then body i iter s else s)"

text \<open>The displacement of an excluded pair (lines 353, 358-360).\<close>

definition exclusionDeltaR :: "CpuNonbondedForce \<Rightarrow> fvec4 \<Rightarrow> fvec4 \<Rightarrow> nat \<Rightarrow> nat \<Rightarrow> fvec4 \<times> real" where
  "exclusionDeltaR s boxSize invBoxSize i j =
     (let posI = FVec4 (atomCoordinates s i 0) (atomCoordinates s i 1) (atomCoordinates s i 2) 0;
          posJ = FVec4 (atomCoordinates s j 0) (atomCoordinates s j 1) (atomCoordinates s j 2) 0
      in getDeltaR posJ posI False boxSize invBoxSize)"

text \<open>The correction for one excluded pair (lines 356-372); the state is the worker's force
  buffer and its \<^verbatim>\<open>threadEnergy\<close> slot.\<close>

definition exclusionIxn ::
    "CpuNonbondedForce \<Rightarrow> fvec4 \<Rightarrow> fvec4 \<Rightarrow> nat \<Rightarrow> nat \<Rightarrow> buffer \<times> real \<Rightarrow> buffer \<times> real" where
  "exclusionIxn s boxSize invBoxSize i j st =
     (case st of (forces, energy) \<Rightarrow>
       (let (deltaR, r2) = exclusionDeltaR s boxSize invBoxSize i j;
            r = sqrt r2;
            inverseR = 1 / r;
            chargeProd = ONE_4PI_EPS0 s * posq s (4 * i + 3) * posq s (4 * j + 3);
            alphaR = alphaEwald s * r;
            erfcAlphaR = lane (erfcApprox (splat alphaR)) 0;
            dEdR = chargeProd * inverseR * inverseR * inverseR;
            dEdR = dEdR * (1 - erfcAlphaR - TWO_OVER_SQRT_PI * alphaR * exp (- alphaR * alphaR));
            result = deltaR * splat dEdR;
            forces = storev (loadv forces (4 * i) - result) forces (4 * i);
            forces = storev (loadv forces (4 * j) + result) forces (4 * j);
            energy = (if includeEnergy s then energy - chargeProd * inverseR * (1 - erfcAlphaR)
                      else energy)
        in (forces, energy)))"

text \<open>A kernel writes the energy through \<^verbatim>\<open>energyPtr\<close>, which points to the worker's
  \<^verbatim>\<open>threadEnergy\<close> slot or is null (line 335).\<close>

definition viaEnergyPtr ::
    "bool \<Rightarrow> (buffer \<times> real option \<Rightarrow> buffer \<times> real option) \<Rightarrow> buffer \<times> real \<Rightarrow> buffer \<times> real" where
  "viaEnergyPtr includeEnergy' ixn st =
     (case st of (forces, energy) \<Rightarrow>
       (case ixn (forces, if includeEnergy' then Some energy else None) of
          (forces', Some energy') \<Rightarrow> (forces', energy')
        | (forces', None) \<Rightarrow> (forces', energy)))"

text \<open>
  \<^verbatim>\<open>threadComputeDirect\<close> (lines 330-392) returns what the worker leaves in
  \<^verbatim>\<open>threadForce[threadIndex]\<close> and \<^verbatim>\<open>threadEnergy[threadIndex]\<close>.  The force vector is
  resized to \<open>4 * numberOfAtoms\<close> slots and zeroed.  \<open>ys b i\<close> is the stack content met by the
  table lookup for neighbour \<open>i\<close> of block \<open>b\<close>.
\<close>

definition threadComputeDirect ::
    "CpuNonbondedForce \<Rightarrow> (nat \<Rightarrow> nat \<Rightarrow> fvec4) \<Rightarrow> nat \<Rightarrow> nat \<Rightarrow> (buffer \<times> real) option" where
  "threadComputeDirect s ys numThreads threadIndex =
     (let st = (\<lambda>k. 0, 0);
          (boxSize, invBoxSize) = boxVectors s
      in if ewald s \<or> pme s then
           do {
             st \<leftarrow> strideLoop (\<lambda>i. viaEnergyPtr (includeEnergy s)
                                     (calculateBlockEwaldIxn s (ys i) i boxSize invBoxSize))
                    numThreads (getNumBlocks (neighborList s)) threadIndex st;
             strideLoop (\<lambda>i. exclusionLoop (exclusionIxn s boxSize invBoxSize) i (exclusions s i))
               numThreads (numberOfAtoms s) threadIndex st
           }
         else if cutoff s then
           strideLoop (\<lambda>i. viaEnergyPtr (includeEnergy s) (calculateBlockIxn s i boxSize invBoxSize))
             numThreads (getNumBlocks (neighborList s)) threadIndex st
         else
           strideLoop (\<lambda>i. pairLoop (\<lambda>i j. viaEnergyPtr (includeEnergy s)
                                              (calculateOneIxn s i j boxSize invBoxSize))
                              (exclusions s) (numberOfAtoms s) i (i + 1))
             numThreads (numberOfAtoms s) threadIndex st)"

text \<open>
  \<^verbatim>\<open>calculateDirectIxn\<close> (lines 294-328).  The workers write disjoint slots and the caller
  waits for all of them, so their runs are independent of each other.
\<close>

definition calculateDirectIxn ::
    "CpuNonbondedForce \<Rightarrow> (nat \<Rightarrow> nat \<Rightarrow> fvec4) \<Rightarrow> nat \<Rightarrow> buffer \<Rightarrow> (nat \<Rightarrow> nat \<Rightarrow> real) \<Rightarrow>
     (nat \<Rightarrow> real \<times> real) \<Rightarrow> (nat \<Rightarrow> nat list) \<Rightarrow> buffer \<Rightarrow> real option \<Rightarrow> nat \<Rightarrow>
     (CpuNonbondedForce \<times> buffer \<times> real option) option" where
  "calculateDirectIxn s ys numberOfAtoms' posq' atomCoordinates' atomParameters' exclusions'
      forces totalEnergy numThreads =
     (let s = s\<lparr>numberOfAtoms := numberOfAtoms', posq := posq',
                 atomCoordinates := atomCoordinates', atomParameters := atomParameters',
                 exclusions := exclusions', includeEnergy := (totalEnergy \<noteq> None)\<rparr>
      in do {
           results \<leftarrow> those (map (threadComputeDirect s ys numThreads) [0..<numThreads]);
           let s = s\<lparr>threadEnergy := map snd results, threadForce := map fst results\<rparr>;
           let directEnergy = fold (\<lambda>i e. e + threadEnergy s ! i) [0..<numThreads] 0;
           let forces = fold (\<lambda>i forces.
                                storev (fold (\<lambda>j f. f + loadv (threadForce s ! j) (4 * i))
                                          [0..<numThreads] (loadv forces (4 * i)))
                                  forces (4 * i))
                          [0..<numberOfAtoms'] forces;
           Some (s, forces, map_option (\<lambda>e. e + directEnergy) totalEnergy)
         })"

section \<open>The reciprocal-space loop\<close>

text \<open>
  The loop nest of \<^verbatim>\<open>calculateReciprocalIxn\<close> (lines 239-289) with its running offsets
  \<^verbatim>\<open>lowry\<close> and \<^verbatim>\<open>lowrz\<close>, over an arbitrary body: the body (lines 245-283) assigns
  none of \<open>rx\<close>, \<open>ry\<close>, \<open>rz\<close>, \<open>lowry\<close>, \<open>lowrz\<close>.  The counters are \<^verbatim>\<open>int\<close>s which stay
  between \<open>1 - numR\<close> and \<open>numR\<close>, so they do not wrap around.
\<close>

function rzLoop ::
    "int \<Rightarrow> (int \<Rightarrow> int \<Rightarrow> int \<Rightarrow> 's \<Rightarrow> 's) \<Rightarrow> int \<Rightarrow> int \<Rightarrow> int \<Rightarrow> int \<times> 's \<Rightarrow> int \<times> 's" where
  "rzLoop numRz' body rx ry rz (lowrz, s) =
     (if rz < numRz' then rzLoop numRz' body rx ry (rz + 1) (1 - numRz', body rx ry rz s)
      else (lowrz, s))"
  by pat_completeness auto
termination
  by (relation "measure (\<lambda>(numRz', body, rx, ry, rz, st). nat (numRz' - rz))") auto

function ryLoop ::
    "int \<Rightarrow> int \<Rightarrow> (int \<Rightarrow> int \<Rightarrow> int \<Rightarrow> 's \<Rightarrow> 's) \<Rightarrow> int \<Rightarrow> int \<Rightarrow> int \<times> int \<times> 's \<Rightarrow> int \<times> int \<times> 's" where
  "ryLoop numRy' numRz' body rx ry (lowry, lowrz, s) =
     (if ry < numRy' then
        (case rzLoop numRz' body rx ry lowrz (lowrz, s) of
           (lowrz', s') \<Rightarrow> ryLoop numRy' numRz' body rx (ry + 1) (1 - numRy', lowrz', s'))
      else (lowry, lowrz, s))"
  by pat_completeness auto
termination
  by (relation "measure (\<lambda>(numRy', numRz', body, rx, ry, st). nat (numRy' - ry))") auto

function rxLoop ::
    "int \<Rightarrow> int \<Rightarrow> int \<Rightarrow> (int \<Rightarrow> int \<Rightarrow> int \<Rightarrow> 's \<Rightarrow> 's) \<Rightarrow> int \<Rightarrow> int \<times> int \<times> 's \<Rightarrow> int \<times> int \<times> 's" where
  "rxLoop numRx' numRy' numRz' body rx (lowry, lowrz, s) =
     (if rx < numRx' then
        rxLoop numRx' numRy' numRz' body (rx + 1) (ryLoop numRy' numRz' body rx lowry (lowry, lowrz, s))
      else (lowry, lowrz, s))"
  by pat_completeness auto
termination
  by (relation "measure (\<lambda>(numRx', numRy', numRz', body, rx, st). nat (numRx' - rx))") auto

text \<open>The loop nest runs in the Ewald branch only (lines 192 and 209); the PME branch hands
  the work to \<^verbatim>\<open>pme_exec\<close>, which belongs to another file.\<close>

definition reciprocalLoop :: "CpuNonbondedForce \<Rightarrow> (int \<Rightarrow> int \<Rightarrow> int \<Rightarrow> 's \<Rightarrow> 's) \<Rightarrow> 's \<Rightarrow> 's" where
  "reciprocalLoop s body st =
     (if pme s then st
      else if ewald s then snd (snd (rxLoop (numRx s) (numRy s) (numRz s) body 0 (0, 1, st)))
      else st)"

section \<open>Traces\<close>

text \<open>Which k-vectors, and which pairs, a loop hands to its body: the body that appends
  its arguments to a list.\<close>

definition visit :: "int \<Rightarrow> int \<Rightarrow> int \<Rightarrow> (int \<times> int \<times> int) list \<Rightarrow> (int \<times> int \<times> int) list" where
  "visit rx ry rz acc = acc @ [(rx, ry, rz)]"

definition reciprocalVisited :: "CpuNonbondedForce \<Rightarrow> (int \<times> int \<times> int) list" where
  "reciprocalVisited s = reciprocalLoop s visit []"

definition visitPair :: "nat \<Rightarrow> nat \<Rightarrow> (nat \<times> nat) list \<Rightarrow> (nat \<times> nat) list" where
  "visitPair i j acc = acc @ [(i, j)]"

definition bruteForcePairs :: "CpuNonbondedForce \<Rightarrow> nat \<Rightarrow> nat \<Rightarrow> (nat \<times> nat) list option" where
  "bruteForcePairs s numThreads threadIndex =
     strideLoop (\<lambda>i. pairLoop visitPair (exclusions s) (numberOfAtoms s) i (i + 1))
       numThreads (numberOfAtoms s) threadIndex []"

definition exclusionPairs :: "CpuNonbondedForce \<Rightarrow> nat \<Rightarrow> nat \<Rightarrow> (nat \<times> nat) list option" where
  "exclusionPairs s numThreads threadIndex =
     strideLoop (\<lambda>i. exclusionLoop visitPair i (exclusions s i))
       numThreads (numberOfAtoms s) threadIndex []"

text \<open>The indices \<open>i\<close>, \<open>i + numThreads\<close>, \<open>i + 2 numThreads\<close>, ... below \<open>n\<close>: the turns of
  a worker's round-robin loop, when there is at least one thread.\<close>

function strideIndices :: "nat \<Rightarrow> nat \<Rightarrow> nat \<Rightarrow> nat list" where
  "strideIndices numThreads n i =
     (if i < n \<and> 0 < numThreads then i # strideIndices numThreads n (i + numThreads) else [])"
  by pat_completeness auto
termination
  by (relation "measure (\<lambda>(numThreads, n, i). n - i)") auto

text \<open>The pairs \<open>(i, j)\<close> for \<open>i\<close> in a list and \<open>j\<close> among the partners of \<open>i\<close>, in order.\<close>

definition pairsOf :: "(nat \<Rightarrow> nat list) \<Rightarrow> nat list \<Rightarrow> (nat \<times> nat) list" where
  "pairsOf partners is = concat (map (\<lambda>i. map (Pair i) (partners i)) is)"

text \<open>The k-vectors of the non-redundant half space.\<close>

definition halfSpace :: "int \<Rightarrow> int \<Rightarrow> int \<Rightarrow> (int \<times> int \<times> int) set" where
  "halfSpace numRx' numRy' numRz' =
     {(rx, ry, rz). 0 \<le> rx \<and> rx < numRx' \<and> - numRy' < ry \<and> ry < numRy' \<and> - numRz' < rz \<and> rz < numRz'
        \<and> (rx > 0 \<or> (rx = 0 \<and> ry > 0) \<or> (rx = 0 \<and> ry = 0 \<and> rz > 0))}"


text \<open>The order in which the loop nest meets them, once \<^verbatim>\<open>lowrz\<close> has been reset: the row
  \<open>rx = ry = 0\<close>, then the rest of the plane \<open>rx = 0\<close>, then the planes \<open>rx > 0\<close>.\<close>

definition kvecs :: "int \<Rightarrow> int \<Rightarrow> int \<Rightarrow> (int \<times> int \<times> int) list" where
  "kvecs numRx' numRy' numRz' =
     List.product [0] (List.product [0] [1..numRz' - 1])
     @ List.product [0] (List.product [1..numRy' - 1] [1 - numRz'..numRz' - 1])
     @ List.product [1..numRx' - 1] (List.product [1 - numRy'..numRy' - 1] [1 - numRz'..numRz' - 1])"

section \<open>The pair terms in the words of the specification\<close>

text \<open>
  The specification's description of the Lennard-Jones and Coulomb terms of one pair, for
  comparison with the kernels: from the two atoms' \<open>sigma\<close> and \<open>epsilon\<close>, the product
  \<open>q\<close> of their charges (with the Coulomb constant), the squared distance \<open>r2\<close>, and the
  switching factor and derivative.
  \<^item> \<open>sig2 = ((sigma\<^sub>i + sigma\<^sub>j) inverseR)\<^sup>2\<close>, \<open>sig6 = sig2\<^sup>3\<close>;
  \<^item> the Lennard-Jones part of \<open>dEdR\<close> is \<open>switchValue eps (12 sig6 - 6) sig6\<close> with
    \<open>eps = eps\<^sub>i eps\<^sub>j\<close>;
  \<^item> the Lennard-Jones energy is \<open>eps (sig6 - 1) sig6\<close>, scaled by \<open>switchValue\<close>.
\<close>

definition spec_sig6 :: "real \<Rightarrow> real \<Rightarrow> real \<Rightarrow> real" where
  "spec_sig6 sigma_i sigma_j inverseR = (((sigma_i + sigma_j) * inverseR)\<^sup>2) ^ 3"

definition spec_ljForce :: "real \<Rightarrow> real \<Rightarrow> real \<Rightarrow> real \<Rightarrow> real" where
  "spec_ljForce switchValue eps_i eps_j sig6 = switchValue * (eps_i * eps_j) * (12 * sig6 - 6) * sig6"

definition spec_ljEnergy :: "real \<Rightarrow> real \<Rightarrow> real \<Rightarrow> real" where
  "spec_ljEnergy eps_i eps_j sig6 = (eps_i * eps_j) * (sig6 - 1) * sig6"

text \<open>The Coulomb parts, without cutoff and with the reaction field.\<close>

definition spec_coulombForce :: "CpuNonbondedForce \<Rightarrow> real \<Rightarrow> real \<Rightarrow> real" where
  "spec_coulombForce s q r2 =
     (if cutoff s then q * (1 / sqrt r2 - 2 * krf s * r2) else q * (1 / sqrt r2))"

definition spec_coulombEnergy :: "CpuNonbondedForce \<Rightarrow> real \<Rightarrow> real \<Rightarrow> real" where
  "spec_coulombEnergy s q r2 =
     (if cutoff s then q * (1 / sqrt r2 + krf s * r2 - crf s) else q * (1 / sqrt r2))"

text \<open>What the kernels apply.  The sum of the Lennard-Jones and Coulomb terms is multiplied
  by \<open>inverseR\<^sup>2\<close> (line 424), and the switching term is subtracted (line 427), before the
  result multiplies the displacement: \<open>applied_dEdR\<close> is the final value of the variable
  \<^verbatim>\<open>dEdR\<close>.  \<open>pair_energy\<close> is the energy of the pair.\<close>

definition applied_dEdR ::
    "CpuNonbondedForce \<Rightarrow> real \<Rightarrow> real \<Rightarrow> real \<Rightarrow> real \<Rightarrow> real \<Rightarrow> real \<Rightarrow> real \<Rightarrow> real \<Rightarrow> real" where
  "applied_dEdR s switchValue switchDeriv sigma_i sigma_j eps_i eps_j q r2 =
     (let inverseR = 1 / sqrt r2;
          sig6 = spec_sig6 sigma_i sigma_j inverseR
      in (spec_ljForce switchValue eps_i eps_j sig6 + spec_coulombForce s q r2) * inverseR\<^sup>2
         - spec_ljEnergy eps_i eps_j sig6 * switchDeriv * inverseR)"

definition pair_energy ::
    "CpuNonbondedForce \<Rightarrow> real \<Rightarrow> real \<Rightarrow> real \<Rightarrow> real \<Rightarrow> real \<Rightarrow> real \<Rightarrow> real \<Rightarrow> real" where
  "pair_energy s switchValue sigma_i sigma_j eps_i eps_j q r2 =
     spec_ljEnergy eps_i eps_j (spec_sig6 sigma_i sigma_j (1 / sqrt r2)) * switchValue
     + spec_coulombEnergy s q r2"

section \<open>A force object to compute with\<close>

text \<open>The object as the constructor leaves it (line 62: the five mode flags are off); the
  members the constructor does not initialise are given zeros and empty containers here,
  and the Coulomb constant a positive value.\<close>

definition emptyNeighborList :: CpuNeighborList where
  "emptyNeighborList =
     \<lparr>getNumBlocks = 0, getSortedAtoms = [], getBlockNeighbors = (\<lambda>b. []),
      getBlockExclusions = (\<lambda>b. [])\<rparr>"

definition newForce :: CpuNonbondedForce where
  "newForce =
     \<lparr>cutoff = False, useSwitch = False, periodic = False, ewald = False, pme = False,
      cutoffDistance = 0, switchingDistance = 0, krf = 0, crf = 0, alphaEwald = 0,
      periodicBoxSize = (\<lambda>k. 0), numRx = 0, numRy = 0, numRz = 0, meshDim = (\<lambda>k. 0),
      ewaldDX = 0, ewaldDXInv = 0, ewaldScaleTable = [], neighborList = emptyNeighborList,
      numberOfAtoms = 0, posq = (\<lambda>k. 0), atomCoordinates = (\<lambda>i k. 0),
      atomParameters = (\<lambda>i. (0, 0)), exclusions = (\<lambda>i. []), includeEnergy = False,
      threadEnergy = [], threadForce = [], ONE_4PI_EPS0 = 138.935456\<rparr>"

text \<open>The scenario of two atoms with \<open>sigma = 0.3\<close> and \<open>epsilon = 0.5\<close> each, no charge, at
  distance \<open>0.33\<close> along the x axis, without cutoff.\<close>

definition twoAtoms :: CpuNonbondedForce where
  "twoAtoms = newForce\<lparr>numberOfAtoms := 2, posq := (\<lambda>k. if k = 4 then 33 / 100 else 0),
     atomParameters := (\<lambda>i. (3 / 10, 1 / 2))\<rparr>"

text \<open>The same two atoms met by the blocked kernel: a block holding atom 0 in its four
  lanes, with atom 1 as only neighbour, and lanes 1 to 3 flagged as excluded.\<close>

definition pairList :: CpuNeighborList where
  "pairList =
     \<lparr>getNumBlocks = 1, getSortedAtoms = [0, 0, 0, 0], getBlockNeighbors = (\<lambda>b. [1]),
      getBlockExclusions = (\<lambda>b. [14])\<rparr>"

definition twoAtomsBlock :: CpuNonbondedForce where
  "twoAtomsBlock = twoAtoms\<lparr>neighborList := pairList\<rparr>"





text \<open>A cubic box of width \<open>0.1f\<close>, the float nearest to one tenth.\<close>

definition tenthBox :: CpuNonbondedForce where
  "tenthBox = newForce\<lparr>periodicBoxSize := (\<lambda>k. 13421773 / 134217728)\<rparr>"

text \<open>Two atoms, with atom 0 recorded in the exclusions of atom 1 but not the reverse.\<close>

definition oneSided :: CpuNonbondedForce where
  "oneSided = newForce\<lparr>ewald := True, numberOfAtoms := 2,
     exclusions := (\<lambda>i. if i = 1 then [0] else [])\<rparr>"

text \<open>Two unit charges excluded from each other, three box widths apart along the x axis
  of a periodic box of width 1.\<close>

definition excludedPair :: CpuNonbondedForce where
  "excludedPair = newForce\<lparr>ewald := True, periodic := True, periodicBoxSize := (\<lambda>k. 1),
     alphaEwald := 1, numberOfAtoms := 2,
     atomCoordinates := (\<lambda>i k. if i = 1 \<and> k = 0 then 3 else 0),
     posq := (\<lambda>k. if k = 4 then 3 else if k = 3 \<or> k = 7 then 1 else 0),
     exclusions := (\<lambda>i. if i = 0 then [1] else if i = 1 then [0] else [])\<rparr>"

declare rzLoop.simps [simp del] ryLoop.simps [simp del] rxLoop.simps [simp del]
declare pairLoop.simps [simp del] strideIndices.simps [simp del]

section \<open>Lanes of vector expressions\<close>

lemma lane_FVec4 [simp]:
  "lane (FVec4 a b c d) 0 = a" "lane (FVec4 a b c d) (Suc 0) = b"
  "lane (FVec4 a b c d) 2 = c" "lane (FVec4 a b c d) 3 = d"
  by simp_all

lemma lane_splat [simp]: "lane (splat c) i = c"
  by (simp add: splat_def)

lemma lane_vmap: "lane (vmap f v) i = f (lane v i)"
  by (cases v) simp

lemma lane_vzip: "lane (vzip f u v) i = f (lane u i) (lane v i)"
  by (cases u; cases v) simp

lemma lane_plus [simp]: "lane (u + v) i = lane u i + lane v i"
  by (simp add: plus_fvec4_def lane_vzip)

lemma lane_minus [simp]: "lane (u - v) i = lane u i - lane v i"
  by (simp add: minus_fvec4_def lane_vzip)

lemma lane_times [simp]: "lane (u * v) i = lane u i * lane v i"
  by (simp add: times_fvec4_def lane_vzip)

lemma lane_divide [simp]: "lane (u / v) i = lane u i / lane v i"
  by (simp add: divide_fvec4_def lane_vzip)

lemma lane_vsqrt [simp]: "lane (vsqrt v) i = sqrt (lane v i)"
  by (simp add: vsqrt_def lane_vmap)

lemma lane_vround [simp]: "lane (vround v) i = of_int (roundEven (lane v i))"
  by (simp add: vround_def lane_vmap)

lemma lane_vmask_gt [simp]: "lane (vmask_gt r c v) i = (if lane r i > c then lane v i else 0)"
  by (simp add: vmask_gt_def lane_vzip)

lemma ilane_vfloor [simp]: "ilane (vfloor v) i = toInt32 (lane v i)"
  by (cases v) simp

lemma lane_to_fvec4 [simp]: "lane (to_fvec4 v) i = of_int (ilane v i)"
  by (cases v) simp

lemma fvec4_eqI: "(\<And>i. i < 4 \<Longrightarrow> lane u i = lane v i) \<Longrightarrow> u = v"
proof -
  assume h: "\<And>i. i < 4 \<Longrightarrow> lane u i = lane v i"
  obtain a b c d where u: "u = FVec4 a b c d" by (cases u)
  obtain a' b' c' d' where v: "v = FVec4 a' b' c' d'" by (cases v)
  from h[of 0] h[of 1] h[of 2] h[of 3] show ?thesis by (simp add: u v)
qed

declare lane.simps [simp del] ilane.simps [simp del]

section \<open>Exact arithmetic\<close>

lemma vmap_ident [simp]: "vmap (\<lambda>x. x) v = v"
  by (cases v) simp

lemma getDeltaR_exact:
  "getDeltaR posI posJ periodic' boxSize invBoxSize =
     (let deltaR = posJ - posI;
          deltaR = (if periodic' then deltaR - vround (deltaR * invBoxSize) * boxSize else deltaR)
      in (deltaR, lane deltaR 0 * lane deltaR 0 + lane deltaR 1 * lane deltaR 1
                    + lane deltaR 2 * lane deltaR 2))"
  by (simp add: getDeltaR_def getDeltaR_fl_def dot3_fl_def Let_def)

lemma getDeltaR_block_exact:
  "getDeltaR_block posI x y z periodic' boxSize invBoxSize =
     (let dx = x - splat (lane posI 0);
          dy = y - splat (lane posI 1);
          dz = z - splat (lane posI 2);
          dx = (if periodic' then dx - vround (dx * splat (lane invBoxSize 0)) * splat (lane boxSize 0) else dx);
          dy = (if periodic' then dy - vround (dy * splat (lane invBoxSize 1)) * splat (lane boxSize 1) else dy);
          dz = (if periodic' then dz - vround (dz * splat (lane invBoxSize 2)) * splat (lane boxSize 2) else dz)
      in (dx, dy, dz, dx * dx + dy * dy + dz * dz))"
  by (simp add: getDeltaR_block_def getDeltaR_block_fl_def Let_def)

lemma boxVectors_exact:
  "boxVectors s =
     (FVec4 (periodicBoxSize s 0) (periodicBoxSize s 1) (periodicBoxSize s 2) 0,
      FVec4 (1 / periodicBoxSize s 0) (1 / periodicBoxSize s 1) (1 / periodicBoxSize s 2) 0)"
  by (simp add: boxVectors_def boxVectors_fl_def)

section \<open>Minimum image\<close>

lemma roundEven_abs_le: "\<bar>x - of_int (roundEven x)\<bar> \<le> 1 / 2"
proof -
  have "0 \<le> x - of_int \<lfloor>x\<rfloor>" "x - of_int \<lfloor>x\<rfloor> < 1"
    by linarith+
  then show ?thesis
    by (auto simp: roundEven_def Let_def)
qed

lemma wrap_le_half:
  fixes d b :: real
  assumes "0 < b"
  shows "\<bar>d - of_int (roundEven (d * (1 / b))) * b\<bar> \<le> b / 2"
proof -
  have "\<bar>d / b - of_int (roundEven (d / b))\<bar> \<le> 1 / 2"
    by (rule roundEven_abs_le)
  then have "\<bar>d / b - of_int (roundEven (d / b))\<bar> * b \<le> (1 / 2) * b"
    using assms by (intro mult_right_mono) simp_all
  moreover have "\<bar>d / b - of_int (roundEven (d / b))\<bar> * b = \<bar>d - of_int (roundEven (d / b)) * b\<bar>"
  proof -
    have "\<bar>d / b - of_int (roundEven (d / b))\<bar> * b = \<bar>(d / b - of_int (roundEven (d / b))) * b\<bar>"
      using assms by (simp add: abs_mult)
    also have "(d / b - of_int (roundEven (d / b))) * b = d - of_int (roundEven (d / b)) * b"
      using assms by (simp add: field_simps)
    finally show ?thesis .
  qed
  ultimately show ?thesis by simp
qed

lemma lane_boxVectors:
  "k < 3 \<Longrightarrow> lane (fst (boxVectors s)) k = periodicBoxSize s k"
  "k < 3 \<Longrightarrow> lane (snd (boxVectors s)) k = 1 / periodicBoxSize s k"
proof -
  assume "k < 3"
  then consider "k = 0" | "k = 1" | "k = 2" by linarith
  then show "lane (fst (boxVectors s)) k = periodicBoxSize s k"
    by cases (simp_all add: boxVectors_exact)
next
  assume "k < 3"
  then consider "k = 0" | "k = 1" | "k = 2" by linarith
  then show "lane (snd (boxVectors s)) k = 1 / periodicBoxSize s k"
    by cases (simp_all add: boxVectors_exact)
qed

text \<open>Rounding the numbers of the example: each is a float already, except the reciprocal
  of the box width, which rounds up to 10.\<close>

lemma ilog2_values:
  "ilog2 (Suc 0) = 0" "ilog2 7 = 2" "ilog2 9 = 3" "ilog2 19 = 4"
  by (simp_all add: ilog2.simps)

lemma exponent2_values:
  "exponent2 (134217728 / 13421773) = 3"
  "exponent2 (3 / 4) = - 1"
  "exponent2 (15 / 2) = 2"
  "exponent2 (13421773 / 16777216) = - 1"
  "exponent2 (838861 / 16777216) = - 5"
  by (simp_all add: exponent2_def ilog2_values)

lemma roundEven_of_int: "roundEven (of_int k) = k"
  by (simp add: roundEven_def Let_def)

lemma roundEven_values:
  "roundEven (15 / 2) = 8"
  "roundEven (140737488355328 / 13421773) = 10485760"
  by (simp_all add: roundEven_def Let_def)

lemma float32_values:
  "float32 (134217728 / 13421773) = 10"
  "float32 (3 / 4) = 3 / 4"
  "float32 (15 / 2) = 15 / 2"
  "float32 (13421773 / 16777216) = 13421773 / 16777216"
  "float32 (- (838861 / 16777216)) = - (838861 / 16777216)"
  "float32 0 = 0"
proof -
  show "float32 (134217728 / 13421773) = 10"
    by (simp add: float32_def exponent2_values roundEven_values Let_def)
  have "roundEven (3 / 4 * 16777216) = 12582912"
    using roundEven_of_int[of 12582912] by simp
  then show "float32 (3 / 4) = 3 / 4"
    by (simp add: float32_def exponent2_values Let_def)
  have "roundEven (15 / 2 * 2097152) = 15728640"
    using roundEven_of_int[of 15728640] by simp
  then show "float32 (15 / 2) = 15 / 2"
    by (simp add: float32_def exponent2_values Let_def)
  have "roundEven (13421773 / 16777216 * 16777216) = 13421773"
    using roundEven_of_int[of 13421773] by simp
  then show "float32 (13421773 / 16777216) = 13421773 / 16777216"
    by (simp add: float32_def exponent2_values Let_def)
  have "roundEven (- (838861 / 16777216) * 268435456) = - 13421776"
    using roundEven_of_int[of "- 13421776"] by simp
  then show "float32 (- (838861 / 16777216)) = - (838861 / 16777216)"
    by (simp add: float32_def exponent2_values Let_def)
  show "float32 0 = 0"
    by (simp add: float32_def)
qed

text \<open>
  Claim C3, as written: whatever the box of positive dimensions and the positions, the
  wrapped displacement is at most half the box dimension.  In the single-precision
  arithmetic of the code it is not: for the box width \<open>0.1f\<close> the stored reciprocal is 10,
  and the displacement \<open>0.75\<close> is wrapped to \<open>- 838861 / 2\<^sup>2\<^sup>4\<close>, about \<open>- 0.0500000119\<close>, whose
  magnitude exceeds half the box width, about \<open>0.0500000007\<close>.
\<close>

theorem getDeltaR_float32_exceeds_half_box:
  "snd (boxVectors_fl float32 tenthBox) = FVec4 10 10 10 0
   \<and> lane (fst (getDeltaR_fl float32 (FVec4 0 0 0 0) (FVec4 (3 / 4) 0 0 0) True
                  (fst (boxVectors_fl float32 tenthBox)) (snd (boxVectors_fl float32 tenthBox)))) 0
       = - (838861 / 16777216)
   \<and> 0 < periodicBoxSize tenthBox 0
   \<and> periodicBoxSize tenthBox 0 / 2
       < \<bar>lane (fst (getDeltaR_fl float32 (FVec4 0 0 0 0) (FVec4 (3 / 4) 0 0 0) True
                  (fst (boxVectors_fl float32 tenthBox)) (snd (boxVectors_fl float32 tenthBox)))) 0\<bar>"
proof -
  have box: "boxVectors_fl float32 tenthBox =
      (FVec4 (13421773 / 134217728) (13421773 / 134217728) (13421773 / 134217728) 0,
       FVec4 10 10 10 0)"
    by (simp add: boxVectors_fl_def tenthBox_def float32_values)
  have "lane (fst (getDeltaR_fl float32 (FVec4 0 0 0 0) (FVec4 (3 / 4) 0 0 0) True
        (FVec4 (13421773 / 134217728) (13421773 / 134217728) (13421773 / 134217728) 0)
        (FVec4 10 10 10 0))) 0 = - (838861 / 16777216)"
    by (simp add: getDeltaR_fl_def Let_def lane_vmap float32_values roundEven_values)
  then show ?thesis
    unfolding box by (simp add: tenthBox_def)
qed

text \<open>
  Claim C3, amended: in exact real arithmetic, with the reciprocal of the box exact, and
  for a box of positive dimensions, the displacement that \<^verbatim>\<open>getDeltaR\<close> returns under
  periodic wrapping has, on each of the three axes, a magnitude of at most half the box
  dimension: for the single pair and, in every lane, for a block.
\<close>

theorem getDeltaR_minimum_image:
  assumes "0 < periodicBoxSize s 0" "0 < periodicBoxSize s 1" "0 < periodicBoxSize s 2"
    and "boxVectors s = (boxSize, invBoxSize)"
  shows "(\<forall>k<3. \<bar>lane (fst (getDeltaR posI posJ True boxSize invBoxSize)) k\<bar>
              \<le> periodicBoxSize s k / 2)
    \<and> (case getDeltaR_block posI x y z True boxSize invBoxSize of
         (dx, dy, dz, r2) \<Rightarrow>
           \<forall>j. \<bar>lane dx j\<bar> \<le> periodicBoxSize s 0 / 2
             \<and> \<bar>lane dy j\<bar> \<le> periodicBoxSize s 1 / 2
             \<and> \<bar>lane dz j\<bar> \<le> periodicBoxSize s 2 / 2)"
proof -
  have pos: "0 < periodicBoxSize s k" if "k < 3" for k
  proof -
    from that consider "k = 0" | "k = 1" | "k = 2" by linarith
    then show ?thesis using assms(1-3) by cases simp_all
  qed
  have box: "lane boxSize k = periodicBoxSize s k" "lane invBoxSize k = 1 / periodicBoxSize s k"
    if "k < 3" for k
    using lane_boxVectors[OF that, of s] assms(4) by simp_all
  have one: "\<bar>lane (fst (getDeltaR posI posJ True boxSize invBoxSize)) k\<bar> \<le> periodicBoxSize s k / 2"
    if "k < 3" for k
    using wrap_le_half[OF pos[OF that]] box[OF that] by (simp add: getDeltaR_exact Let_def)
  have blk: "\<bar>lane dx j\<bar> \<le> periodicBoxSize s 0 / 2 \<and> \<bar>lane dy j\<bar> \<le> periodicBoxSize s 1 / 2
      \<and> \<bar>lane dz j\<bar> \<le> periodicBoxSize s 2 / 2"
    if "getDeltaR_block posI x y z True boxSize invBoxSize = (dx, dy, dz, r2)" for dx dy dz r2 j
  proof -
    from that have
      "dx = x - splat (lane posI 0) - vround ((x - splat (lane posI 0)) * splat (lane invBoxSize 0)) * splat (lane boxSize 0)"
      "dy = y - splat (lane posI 1) - vround ((y - splat (lane posI 1)) * splat (lane invBoxSize 1)) * splat (lane boxSize 1)"
      "dz = z - splat (lane posI 2) - vround ((z - splat (lane posI 2)) * splat (lane invBoxSize 2)) * splat (lane boxSize 2)"
      by (simp_all add: getDeltaR_block_exact Let_def)
    then show ?thesis
      using wrap_le_half[OF pos[of 0]] wrap_le_half[OF pos[of 1]] wrap_le_half[OF pos[of 2]]
        box[of 0] box[of 1] box[of 2]
      by simp
  qed
  show ?thesis using one blk by (auto split: prod.splits)
qed

text \<open>The same displacement \<open>0.75\<close> in a box of width \<open>0.1f\<close>, in exact arithmetic: the nearest
  image is the seventh, and the bound holds.\<close>

theorem getDeltaR_minimum_image_witness:
  "\<bar>lane (fst (getDeltaR (FVec4 0 0 0 0) (FVec4 (3 / 4) 0 0 0) True
       (fst (boxVectors tenthBox)) (snd (boxVectors tenthBox)))) 0\<bar> \<le> periodicBoxSize tenthBox 0 / 2"
proof -
  have p: "0 < periodicBoxSize tenthBox 0" "0 < periodicBoxSize tenthBox 1" "0 < periodicBoxSize tenthBox 2"
    by (simp_all add: tenthBox_def)
  have b: "boxVectors tenthBox = (fst (boxVectors tenthBox), snd (boxVectors tenthBox))"
    by simp
  from getDeltaR_minimum_image[OF p b, of "FVec4 0 0 0 0" "FVec4 (3 / 4) 0 0 0"]
  show ?thesis by simp
qed

section \<open>Reaction field\<close>

text \<open>
  Claim C5, as written: for every positive cutoff and every solvent dielectric the
  reaction-field energy term vanishes at the cutoff.  At \<open>solventDielectric = - 1/2\<close> the
  divisor \<open>2 * solventDielectric + 1\<close> is zero and \<^verbatim>\<open>krf\<close>, \<^verbatim>\<open>crf\<close> have no value.
\<close>

theorem reaction_field_undefined_at_minus_half:
  "setUseCutoff newForce 1 emptyNeighborList (- 1 / 2) = None"
  by (simp add: setUseCutoff_def)

text \<open>
  Claim C5, amended: for every positive cutoff and every solvent dielectric other than
  \<open>- 1/2\<close>, \<^verbatim>\<open>setUseCutoff\<close> sets \<^verbatim>\<open>krf\<close> and \<^verbatim>\<open>crf\<close> to the stated quotients, the energy term
  \<open>chargeProd * (inverseR + krf * r\<^sup>2 - crf)\<close> is exactly zero at \<open>r = cutoff\<close>, and it tends
  to zero as \<open>r\<close> approaches the cutoff.
\<close>

theorem reaction_field_energy_vanishes_at_cutoff:
  assumes "0 < distance" "2 * solventDielectric + 1 \<noteq> 0"
  shows "\<exists>s'. setUseCutoff s distance neighbors solventDielectric = Some s'
    \<and> krf s' = (solventDielectric - 1) / ((2 * solventDielectric + 1) * distance ^ 3)
    \<and> crf s' = 3 * solventDielectric / ((2 * solventDielectric + 1) * distance)
    \<and> chargeProd * (1 / distance + krf s' * (distance * distance) - crf s') = 0
    \<and> ((\<lambda>r. chargeProd * (1 / r + krf s' * (r * r) - crf s')) \<longlongrightarrow> 0) (at distance)"
proof -
  define k where "k = (solventDielectric - 1) / ((2 * solventDielectric + 1) * distance ^ 3)"
  define c where "c = 3 * solventDielectric / ((2 * solventDielectric + 1) * distance)"
  define s' where "s' = s\<lparr>cutoff := True, cutoffDistance := distance, neighborList := neighbors,
        krf := (1 / distance ^ 3) * (solventDielectric - 1) / (2 * solventDielectric + 1),
        crf := (1 / distance) * (3 * solventDielectric) / (2 * solventDielectric + 1)\<rparr>"
  have set: "setUseCutoff s distance neighbors solventDielectric = Some s'"
    using assms by (simp add: setUseCutoff_def s'_def)
  have kk: "krf s' = k" and cc: "crf s' = c"
    by (simp_all add: s'_def k_def c_def)
  have zero: "1 / distance + k * (distance * distance) - c = 0"
  proof -
    define D where "D = 2 * solventDielectric + 1"
    have nz: "D \<noteq> 0" "distance \<noteq> 0"
      using assms by (simp_all add: D_def)
    have e: "solventDielectric = (D - 1) / 2"
      by (simp add: D_def)
    have "1 / distance + ((D - 1) / 2 - 1) / (D * distance ^ 3) * (distance * distance)
        - 3 * ((D - 1) / 2) / (D * distance) = 0"
      using nz by (simp add: field_simps power3_eq_cube)
    then show ?thesis
      unfolding k_def c_def e by (simp add: D_def)
  qed
  have "((\<lambda>r. chargeProd * (1 / r + k * (r * r) - c))
      \<longlongrightarrow> chargeProd * (1 / distance + k * (distance * distance) - c)) (at distance)"
    using assms(1) by (intro tendsto_intros) simp_all
  then have lim: "((\<lambda>r. chargeProd * (1 / r + k * (r * r) - c)) \<longlongrightarrow> 0) (at distance)"
    by (simp add: zero)
  show ?thesis
    using set kk cc zero lim unfolding k_def c_def by (intro exI[of _ s']) simp
qed

theorem reaction_field_energy_vanishes_at_cutoff_witness:
  "\<exists>s'. setUseCutoff newForce 1 emptyNeighborList 78 = Some s'
    \<and> krf s' = (78 - 1) / ((2 * 78 + 1) * 1 ^ 3)
    \<and> crf s' = 3 * 78 / ((2 * 78 + 1) * 1)
    \<and> 5 * (1 / 1 + krf s' * (1 * 1) - crf s') = 0
    \<and> ((\<lambda>r. 5 * (1 / r + krf s' * (r * r) - crf s')) \<longlongrightarrow> 0) (at 1)"
  using reaction_field_energy_vanishes_at_cutoff[of 1 78 newForce emptyNeighborList 5] by simp

section \<open>Switching\<close>

text \<open>
  Claim C6.  With switching in use and the switching distance below the cutoff distance,
  at \<open>r = switchingDistance\<close> the switching factor is 1 and its derivative 0, and at
  \<open>r = cutoffDistance\<close> both are 0: in \<^verbatim>\<open>calculateOneIxn\<close>, and in every lane of the
  blocked kernels.
\<close>

theorem switching_continuity:
  assumes "useSwitch s" "switchingDistance s < cutoffDistance s"
  shows "switchOne s (switchingDistance s) = (1, 0)
    \<and> switchOne s (cutoffDistance s) = (0, 0)
    \<and> (\<forall>j. lane r j = switchingDistance s \<longrightarrow>
          lane (fst (switchBlock s r)) j = 1 \<and> lane (snd (switchBlock s r)) j = 0)
    \<and> (\<forall>j. lane r j = cutoffDistance s \<longrightarrow>
          lane (fst (switchBlock s r)) j = 0 \<and> lane (snd (switchBlock s r)) j = 0)"
proof -
  have w: "cutoffDistance s - switchingDistance s \<noteq> 0"
    using assms(2) by simp
  have "switchOne s (switchingDistance s) = (1, 0)"
    by (simp add: switchOne_def)
  moreover have "switchOne s (cutoffDistance s) = (0, 0)"
    using assms w by (simp add: switchOne_def Let_def)
  moreover have "lane (fst (switchBlock s r)) j = 1 \<and> lane (snd (switchBlock s r)) j = 0"
    if "lane r j = switchingDistance s" for j
    using assms that by (simp add: switchBlock_def Let_def)
  moreover have "lane (fst (switchBlock s r)) j = 0 \<and> lane (snd (switchBlock s r)) j = 0"
    if "lane r j = cutoffDistance s" for j
    using assms w that by (simp add: switchBlock_def Let_def)
  ultimately show ?thesis by blast
qed

theorem switching_continuity_witness:
  "switchOne (newForce\<lparr>useSwitch := True, switchingDistance := 1, cutoffDistance := 2\<rparr>) 1 = (1, 0)
    \<and> switchOne (newForce\<lparr>useSwitch := True, switchingDistance := 1, cutoffDistance := 2\<rparr>) 2 = (0, 0)
    \<and> lane (fst (switchBlock (newForce\<lparr>useSwitch := True, switchingDistance := 1, cutoffDistance := 2\<rparr>)
         (FVec4 1 2 1 2))) 0 = 1
    \<and> lane (snd (switchBlock (newForce\<lparr>useSwitch := True, switchingDistance := 1, cutoffDistance := 2\<rparr>)
         (FVec4 1 2 1 2))) 1 = 0
    \<and> lane (fst (switchBlock (newForce\<lparr>useSwitch := True, switchingDistance := 1, cutoffDistance := 2\<rparr>)
         (FVec4 1 2 1 2))) 1 = 0"
  using switching_continuity[of "newForce\<lparr>useSwitch := True, switchingDistance := 1, cutoffDistance := 2\<rparr>"
      "FVec4 1 2 1 2"]
  by (simp add: newForce_def)

section \<open>The table\<close>

lemma length_resize [simp]: "length (resize xs n) = n"
  by (simp add: resize_def)

lemma table_fold:
  fixes a b c d :: "nat \<Rightarrow> real"
  defines "step \<equiv> (\<lambda>i t. t[4 * i := a i, 4 * i + 1 := b i, 4 * i + 2 := c i, 4 * i + 3 := d i])"
  assumes "k \<le> n" "length t = 4 * n"
  shows "length (fold step [0..<k] t) = 4 * n
    \<and> (\<forall>i<k. fold step [0..<k] t ! (4 * i) = a i \<and> fold step [0..<k] t ! (4 * i + 1) = b i
           \<and> fold step [0..<k] t ! (4 * i + 2) = c i \<and> fold step [0..<k] t ! (4 * i + 3) = d i)"
  using assms(2)
proof (induction k)
  case 0
  then show ?case using assms(3) by simp
next
  case (Suc k)
  define u where "u = fold step [0..<k] t"
  have len: "length u = 4 * n"
    and old: "\<And>i. i < k \<Longrightarrow> u ! (4 * i) = a i \<and> u ! (4 * i + 1) = b i
                \<and> u ! (4 * i + 2) = c i \<and> u ! (4 * i + 3) = d i"
    using Suc by (simp_all add: u_def)
  have f: "fold step [0..<Suc k] t = step k u"
    by (simp add: u_def)
  have new: "step k u ! (4 * i) = a i \<and> step k u ! (4 * i + 1) = b i
      \<and> step k u ! (4 * i + 2) = c i \<and> step k u ! (4 * i + 3) = d i" if "i < Suc k" for i
  proof (cases "i = k")
    case True
    then show ?thesis using len Suc.prems by (simp add: step_def)
  next
    case False
    with that have "i < k" by simp
    then show ?thesis using old[of i] by (simp add: step_def nth_list_update)
  qed
  show ?case unfolding f using new len by (simp add: step_def)
qed

text \<open>
  Claim C7.  \<^verbatim>\<open>tabulateEwaldScaleFactor\<close> samples
  \<open>y(r) = erfc(alpha r) + (2/\<surd>\<pi>) alpha r exp(-(alpha r)\<^sup>2)\<close> at \<open>NUM_TABLE_POINTS + 1 = 1026\<close>
  points \<open>r\<^sub>i = i cutoff / 1023\<close>, a uniform grid of step \<open>cutoff / 1023\<close> whose last
  sample lies two steps beyond the cutoff, and bucket \<open>i\<close> of the table holds
  \<open>y\<^sub>i\<close>, \<open>y\<^sub>i\<^sub>+\<^sub>1\<close>, \<open>deriv\<^sub>i step\<^sup>2/6\<close>, \<open>deriv\<^sub>i\<^sub>+\<^sub>1 step\<^sup>2/6\<close>, for each of the
  \<open>NUM_TABLE_POINTS\<close> buckets.  This table is what the function installs.
\<close>

theorem tabulateEwaldScaleFactor_grid:
  assumes "i < NUM_TABLE_POINTS"
  shows "(let (x, y) = ewaldSamples erfc s;
              step = cutoffDistance s / 1023;
              deriv = createNaturalSpline x y;
              table = ewaldTable erfc createNaturalSpline s
          in NUM_TABLE_POINTS + 1 = 1026 \<and> length x = 1026 \<and> length y = 1026
           \<and> x ! i = real i * cutoffDistance s / 1023
           \<and> x ! (i + 1) = real (i + 1) * cutoffDistance s / 1023
           \<and> x ! (i + 1) - x ! i = step
           \<and> x ! 0 = 0 \<and> x ! 1025 = cutoffDistance s + 2 * step
           \<and> y ! i = erfc (alphaEwald s * x ! i)
                 + 2 / sqrt pi * (alphaEwald s * x ! i) * exp (- (alphaEwald s * x ! i)\<^sup>2)
           \<and> y ! (i + 1) = erfc (alphaEwald s * x ! (i + 1))
                 + 2 / sqrt pi * (alphaEwald s * x ! (i + 1)) * exp (- (alphaEwald s * x ! (i + 1))\<^sup>2)
           \<and> length table = 4 * NUM_TABLE_POINTS
           \<and> table ! (4 * i) = y ! i
           \<and> table ! (4 * i + 1) = y ! (i + 1)
           \<and> table ! (4 * i + 2) = deriv ! i * step\<^sup>2 / 6
           \<and> table ! (4 * i + 3) = deriv ! (i + 1) * step\<^sup>2 / 6
           \<and> tabulateEwaldScaleFactor erfc createNaturalSpline s =
               (if cutoffDistance s = 0 then None
                else Some (s\<lparr>ewaldDX := step, ewaldDXInv := 1 / step, ewaldScaleTable := table\<rparr>)))"
proof -
  obtain x y where xy: "ewaldSamples erfc s = (x, y)"
    by (cases "ewaldSamples erfc s")
  define step where "step = cutoffDistance s / 1023"
  define deriv where "deriv = createNaturalSpline x y"
  define table where "table = ewaldTable erfc createNaturalSpline s"
  have i: "i < 1025" using assms by (simp add: NUM_TABLE_POINTS_def)
  define f where "f = (\<lambda>i::nat. real i * cutoffDistance s / real (NUM_TABLE_POINTS - 2))"
  define g where "g = (\<lambda>i::nat. let r = real i * cutoffDistance s / real (NUM_TABLE_POINTS - 2);
                                  alphaR = alphaEwald s * r
                              in erfc alphaR + TWO_OVER_SQRT_PI * alphaR * exp (- alphaR * alphaR))"
  have x: "x = map f [0..<NUM_TABLE_POINTS + 1]" and y: "y = map g [0..<NUM_TABLE_POINTS + 1]"
    using xy by (simp_all add: ewaldSamples_def f_def g_def del: upt_Suc)
  have len: "length x = 1026" "length y = 1026"
    by (simp_all add: x y NUM_TABLE_POINTS_def del: upt_Suc)
  have xf: "x ! j = f j" and yg: "y ! j = g j" if "j < 1026" for j
    using that unfolding x y by (simp_all add: NUM_TABLE_POINTS_def del: upt_Suc)
  have xn: "x ! j = real j * cutoffDistance s / 1023" if "j < 1026" for j
    using xf[OF that] by (simp add: f_def NUM_TABLE_POINTS_def)
  have yn: "y ! j = erfc (alphaEwald s * x ! j)
      + 2 / sqrt pi * (alphaEwald s * x ! j) * exp (- (alphaEwald s * x ! j)\<^sup>2)" if "j < 1026" for j
    unfolding yg[OF that] xn[OF that]
    by (simp add: g_def Let_def TWO_OVER_SQRT_PI_def power2_eq_square NUM_TABLE_POINTS_def)
  have diff: "x ! (i + 1) - x ! i = step"
    using i by (simp add: xn step_def field_simps)
  have last: "x ! 1025 = cutoffDistance s + 2 * step"
    by (simp add: xn step_def)
  have tab: "table = fold (\<lambda>i t. t[4 * i := y ! i, 4 * i + 1 := y ! (i + 1),
        4 * i + 2 := deriv ! i * step * step / 6, 4 * i + 3 := deriv ! (i + 1) * step * step / 6])
      [0..<NUM_TABLE_POINTS] (resize (ewaldScaleTable s) (4 * NUM_TABLE_POINTS))"
    by (simp add: table_def ewaldTable_def xy deriv_def step_def Let_def NUM_TABLE_POINTS_def)
  have entries: "length table = 4 * NUM_TABLE_POINTS
    \<and> (\<forall>i<NUM_TABLE_POINTS. table ! (4 * i) = y ! i \<and> table ! (4 * i + 1) = y ! (i + 1)
         \<and> table ! (4 * i + 2) = deriv ! i * step * step / 6
         \<and> table ! (4 * i + 3) = deriv ! (i + 1) * step * step / 6)"
    unfolding tab by (rule table_fold) simp_all
  have tabulate: "tabulateEwaldScaleFactor erfc createNaturalSpline s =
      (if cutoffDistance s = 0 then None
       else Some (s\<lparr>ewaldDX := step, ewaldDXInv := 1 / step, ewaldScaleTable := table\<rparr>))"
    by (simp add: tabulateEwaldScaleFactor_def Let_def table_def step_def NUM_TABLE_POINTS_def)
  show ?thesis
    unfolding xy Let_def prod.case step_def[symmetric] deriv_def[symmetric] table_def[symmetric]
    using len xn[of i] xn[of "i + 1"] xn[of 0] yn[of i] yn[of "i + 1"] diff last entries tabulate i assms
    by (simp add: power2_eq_square NUM_TABLE_POINTS_def)
qed

theorem tabulateEwaldScaleFactor_grid_witness:
  "(let (x, y) = ewaldSamples (\<lambda>r. 1 - r) (newForce\<lparr>cutoffDistance := 1, alphaEwald := 1\<rparr>);
        step = cutoffDistance (newForce\<lparr>cutoffDistance := 1, alphaEwald := 1\<rparr>) / 1023;
        deriv = (\<lambda>x y. map (\<lambda>v. 0) x) x y;
        table = ewaldTable (\<lambda>r. 1 - r) (\<lambda>x y. map (\<lambda>v. 0) x) (newForce\<lparr>cutoffDistance := 1, alphaEwald := 1\<rparr>)
    in NUM_TABLE_POINTS + 1 = 1026 \<and> length x = 1026 \<and> length y = 1026
     \<and> x ! 7 = real 7 * cutoffDistance (newForce\<lparr>cutoffDistance := 1, alphaEwald := 1\<rparr>) / 1023
     \<and> x ! (7 + 1) = real (7 + 1) * cutoffDistance (newForce\<lparr>cutoffDistance := 1, alphaEwald := 1\<rparr>) / 1023
     \<and> x ! (7 + 1) - x ! 7 = step
     \<and> x ! 0 = 0 \<and> x ! 1025 = cutoffDistance (newForce\<lparr>cutoffDistance := 1, alphaEwald := 1\<rparr>) + 2 * step
     \<and> y ! 7 = (\<lambda>r. 1 - r) (alphaEwald (newForce\<lparr>cutoffDistance := 1, alphaEwald := 1\<rparr>) * x ! 7)
           + 2 / sqrt pi * (alphaEwald (newForce\<lparr>cutoffDistance := 1, alphaEwald := 1\<rparr>) * x ! 7)
             * exp (- (alphaEwald (newForce\<lparr>cutoffDistance := 1, alphaEwald := 1\<rparr>) * x ! 7)\<^sup>2)
     \<and> y ! (7 + 1) = (\<lambda>r. 1 - r) (alphaEwald (newForce\<lparr>cutoffDistance := 1, alphaEwald := 1\<rparr>) * x ! (7 + 1))
           + 2 / sqrt pi * (alphaEwald (newForce\<lparr>cutoffDistance := 1, alphaEwald := 1\<rparr>) * x ! (7 + 1))
             * exp (- (alphaEwald (newForce\<lparr>cutoffDistance := 1, alphaEwald := 1\<rparr>) * x ! (7 + 1))\<^sup>2)
     \<and> length table = 4 * NUM_TABLE_POINTS
     \<and> table ! (4 * 7) = y ! 7
     \<and> table ! (4 * 7 + 1) = y ! (7 + 1)
     \<and> table ! (4 * 7 + 2) = deriv ! 7 * step\<^sup>2 / 6
     \<and> table ! (4 * 7 + 3) = deriv ! (7 + 1) * step\<^sup>2 / 6
     \<and> tabulateEwaldScaleFactor (\<lambda>r. 1 - r) (\<lambda>x y. map (\<lambda>v. 0) x) (newForce\<lparr>cutoffDistance := 1, alphaEwald := 1\<rparr>) =
         (if cutoffDistance (newForce\<lparr>cutoffDistance := 1, alphaEwald := 1\<rparr>) = 0 then None
          else Some (newForce\<lparr>cutoffDistance := 1, alphaEwald := 1, ewaldDX := step, ewaldDXInv := 1 / step,
                 ewaldScaleTable := table\<rparr>)))"
  by (rule tabulateEwaldScaleFactor_grid) (simp add: NUM_TABLE_POINTS_def)

section \<open>Loops as folds\<close>

lemma strideLoop_fold:
  "0 < numThreads \<Longrightarrow>
   strideLoop body numThreads n i s = Some (fold body (strideIndices numThreads n i) s)"
proof (induction numThreads n i arbitrary: s rule: strideIndices.induct)
  case (1 numThreads n i)
  show ?case
  proof (cases "i < n")
    case True
    with "1" show ?thesis
      by (subst strideLoop.simps, subst strideIndices.simps) simp
  next
    case False
    then show ?thesis
      by (subst strideLoop.simps, subst strideIndices.simps) simp
  qed
qed

lemma set_strideIndices_aux:
  "0 < numThreads \<Longrightarrow>
   set (strideIndices numThreads n i) = {k. k < n \<and> (\<exists>m. k = i + m * numThreads)}"
proof (induction numThreads n i rule: strideIndices.induct)
  case (1 numThreads n i)
  show ?case
  proof (cases "i < n")
    case True
    have "{k. k < n \<and> (\<exists>m. k = i + m * numThreads)} =
        insert i {k. k < n \<and> (\<exists>m. k = i + numThreads + m * numThreads)}" (is "?L = ?R")
    proof (rule set_eqI)
      fix k
      show "k \<in> ?L \<longleftrightarrow> k \<in> ?R"
      proof
        assume "k \<in> ?L"
        then obtain m where k: "k < n" "k = i + m * numThreads" by blast
        show "k \<in> ?R"
        proof (cases m)
          case 0
          with k show ?thesis by simp
        next
          case (Suc m')
          with k have "k = i + numThreads + m' * numThreads" by simp
          with k(1) show ?thesis by blast
        qed
      next
        assume "k \<in> ?R"
        then consider "k = i" | m where "k < n" "k = i + numThreads + m * numThreads" by blast
        then show "k \<in> ?L"
        proof cases
          case 1
          then have "k = i + 0 * numThreads" by simp
          with True 1 show ?thesis by blast
        next
          case 2
          then have "k = i + Suc m * numThreads" by simp
          with 2(1) show ?thesis by blast
        qed
      qed
    qed
    with True "1" show ?thesis
      by (subst strideIndices.simps) simp
  next
    case False
    then show ?thesis
      by (subst strideIndices.simps) auto
  qed
qed

lemma set_strideIndices:
  assumes "threadIndex < numThreads"
  shows "set (strideIndices numThreads n threadIndex) = {k. k < n \<and> k mod numThreads = threadIndex}"
proof -
  have "(\<exists>m. k = threadIndex + m * numThreads) \<longleftrightarrow> k mod numThreads = threadIndex" for k
  proof
    assume "\<exists>m. k = threadIndex + m * numThreads"
    then show "k mod numThreads = threadIndex" using assms by auto
  next
    assume "k mod numThreads = threadIndex"
    then have "k = threadIndex + (k div numThreads) * numThreads"
      using div_mult_mod_eq[of k numThreads] by simp
    then show "\<exists>m. k = threadIndex + m * numThreads" ..
  qed
  then show ?thesis using assms by (simp add: set_strideIndices_aux)
qed

lemma distinct_strideIndices: "distinct (strideIndices numThreads n i)"
proof (induction numThreads n i rule: strideIndices.induct)
  case (1 numThreads n i)
  show ?case
  proof (cases "i < n \<and> 0 < numThreads")
    case True
    then have "i \<notin> set (strideIndices numThreads n (i + numThreads))"
      by (auto simp: set_strideIndices_aux)
    with True "1" show ?thesis
      by (subst strideIndices.simps) simp
  next
    case False
    then show ?thesis
      by (subst strideIndices.simps) auto
  qed
qed

lemma pairLoop_fold:
  "pairLoop body excl n i j s =
     fold (body i) (filter (\<lambda>j. i \<notin> set (excl j)) [j..<n]) s"
proof (induction body excl n i j s rule: pairLoop.induct)
  case (1 body excl n i j s)
  show ?case
  proof (cases "j < n")
    case True
    then have "[j..<n] = j # [j + 1..<n]"
      by (simp add: upt_conv_Cons)
    with True "1" show ?thesis
      by (subst pairLoop.simps) simp
  next
    case False
    then show ?thesis
      by (subst pairLoop.simps) simp
  qed
qed

lemma exclusionLoop_fold:
  "exclusionLoop body i js s = fold (body i) (filter (\<lambda>j. i < j) js) s"
  by (induction js arbitrary: s) simp_all

text \<open>A loop nest that hands pairs to its body is the fold of the body over the pairs.\<close>

lemma fold_pairsOf:
  "fold (\<lambda>i. fold (body i) (partners i)) is s = fold (\<lambda>(i, j). body i j) (pairsOf partners is) s"
  by (induction "is" arbitrary: s) (simp_all add: pairsOf_def fold_map comp_def)

lemma fold_visitPair: "fold (\<lambda>(i, j). visitPair i j) ps acc = acc @ ps"
  by (induction ps arbitrary: acc) (auto simp: visitPair_def)

lemma set_pairsOf: "set (pairsOf partners is) = {(i, j). i \<in> set is \<and> j \<in> set (partners i)}"
  by (auto simp: pairsOf_def)

lemma distinct_pairsOf:
  assumes "distinct is" "\<And>i. i \<in> set is \<Longrightarrow> distinct (partners i)"
  shows "distinct (pairsOf partners is)"
  using assms
proof (induction "is")
  case Nil
  then show ?case by (simp add: pairsOf_def)
next
  case (Cons i "is")
  have "pairsOf partners (i # is) = map (Pair i) (partners i) @ pairsOf partners is"
    by (simp add: pairsOf_def)
  moreover have "distinct (map (Pair i) (partners i))"
    using Cons.prems by (simp add: distinct_map inj_on_def)
  moreover have "distinct (pairsOf partners is)"
    using Cons by simp
  moreover have "set (map (Pair i) (partners i)) \<inter> set (pairsOf partners is) = {}"
    using Cons.prems(1) by (auto simp: set_pairsOf)
  ultimately show ?case by simp
qed

lemma pair_strideLoop:
  assumes "0 < numThreads"
  shows "strideLoop (\<lambda>i. pairLoop body excl n i (i + 1)) numThreads n threadIndex st =
    Some (fold (\<lambda>(i, j). body i j)
      (pairsOf (\<lambda>i. filter (\<lambda>j. i \<notin> set (excl j)) [i + 1..<n]) (strideIndices numThreads n threadIndex)) st)"
proof -
  have "(\<lambda>i. pairLoop body excl n i (i + 1)) =
      (\<lambda>i. fold (body i) (filter (\<lambda>j. i \<notin> set (excl j)) [i + 1..<n]))"
    by (rule ext)+ (rule pairLoop_fold)
  then show ?thesis
    using assms by (simp add: strideLoop_fold fold_pairsOf)
qed

lemma exclusion_strideLoop:
  assumes "0 < numThreads"
  shows "strideLoop (\<lambda>i. exclusionLoop body i (excl i)) numThreads n threadIndex st =
    Some (fold (\<lambda>(i, j). body i j)
      (pairsOf (\<lambda>i. filter (\<lambda>j. i < j) (excl i)) (strideIndices numThreads n threadIndex)) st)"
proof -
  have "(\<lambda>i. exclusionLoop body i (excl i)) = (\<lambda>i. fold (body i) (filter (\<lambda>j. i < j) (excl i)))"
    by (rule ext)+ (rule exclusionLoop_fold)
  then show ?thesis
    using assms by (simp add: strideLoop_fold fold_pairsOf)
qed


section \<open>The brute-force path\<close>

lemma bruteForcePairs_eq:
  assumes "0 < numThreads"
  shows "bruteForcePairs s numThreads threadIndex =
    Some (pairsOf (\<lambda>i. filter (\<lambda>j. i \<notin> set (exclusions s j)) [i + 1..<numberOfAtoms s])
      (strideIndices numThreads (numberOfAtoms s) threadIndex))"
  unfolding bruteForcePairs_def pair_strideLoop[OF assms] fold_visitPair by simp

text \<open>
  Claim C9.  Without cutoff, worker \<open>threadIndex\<close> calls \<^verbatim>\<open>calculateOneIxn\<close> once for each
  pair \<open>i < j\<close> of its atoms \<open>i\<close> such that \<open>i\<close> is not in \<^verbatim>\<open>exclusions[j]\<close>, and for no
  other pair; what \<^verbatim>\<open>exclusions[i]\<close> holds has no influence on the pairs \<open>(i, j)\<close>.
\<close>

theorem brute_force_exclusion_lookup:
  assumes "threadIndex < numThreads"
  shows "\<exists>ps. bruteForcePairs s numThreads threadIndex = Some ps
    \<and> distinct ps
    \<and> set ps = {(i, j). i < j \<and> j < numberOfAtoms s \<and> i mod numThreads = threadIndex
                   \<and> i \<notin> set (exclusions s j)}
    \<and> (\<not> ewald s \<and> \<not> pme s \<and> \<not> cutoff s \<longrightarrow>
         threadComputeDirect s ys numThreads threadIndex =
           Some (fold (\<lambda>(i, j). viaEnergyPtr (includeEnergy s)
                    (calculateOneIxn s i j (fst (boxVectors s)) (snd (boxVectors s))))
                 ps (\<lambda>k. 0, 0)))
    \<and> (\<forall>i e. \<exists>ps'. bruteForcePairs (s\<lparr>exclusions := (exclusions s)(i := e)\<rparr>) numThreads threadIndex
                      = Some ps'
                \<and> (\<forall>j. (i, j) \<in> set ps' \<longleftrightarrow> (i, j) \<in> set ps))"
proof -
  have T: "0 < numThreads" using assms by simp
  define ps where "ps = pairsOf (\<lambda>i. filter (\<lambda>j. i \<notin> set (exclusions s j)) [i + 1..<numberOfAtoms s])
      (strideIndices numThreads (numberOfAtoms s) threadIndex)"
  have eq: "bruteForcePairs s numThreads threadIndex = Some ps"
    by (simp add: bruteForcePairs_eq[OF T] ps_def)
  have d: "distinct ps"
    unfolding ps_def by (rule distinct_pairsOf) (simp_all add: distinct_strideIndices)
  have st: "set ps = {(i, j). i < j \<and> j < numberOfAtoms s \<and> i mod numThreads = threadIndex
                   \<and> i \<notin> set (exclusions s j)}"
    unfolding ps_def set_pairsOf set_strideIndices[OF assms] by auto
  have run: "threadComputeDirect s ys numThreads threadIndex =
      Some (fold (\<lambda>(i, j). viaEnergyPtr (includeEnergy s)
               (calculateOneIxn s i j (fst (boxVectors s)) (snd (boxVectors s))))
            ps (\<lambda>k. 0, 0))"
    if "\<not> ewald s" "\<not> pme s" "\<not> cutoff s"
    unfolding threadComputeDirect_def Let_def pair_strideLoop[OF T] ps_def
    using that by (simp add: case_prod_beta)
  have other: "\<exists>ps'. bruteForcePairs (s\<lparr>exclusions := (exclusions s)(i := e)\<rparr>) numThreads threadIndex
        = Some ps' \<and> (\<forall>j. (i, j) \<in> set ps' \<longleftrightarrow> (i, j) \<in> set ps)" for i e
  proof -
    let ?s = "s\<lparr>exclusions := (exclusions s)(i := e)\<rparr>"
    let ?ps = "pairsOf (\<lambda>i. filter (\<lambda>j. i \<notin> set (exclusions ?s j)) [i + 1..<numberOfAtoms ?s])
      (strideIndices numThreads (numberOfAtoms ?s) threadIndex)"
    have "bruteForcePairs ?s numThreads threadIndex = Some ?ps"
      by (rule bruteForcePairs_eq[OF T])
    moreover have "(i, j) \<in> set ?ps \<longleftrightarrow> (i, j) \<in> set ps" for j
      unfolding st unfolding set_pairsOf set_strideIndices[OF assms] by auto
    ultimately show ?thesis by blast
  qed
  show ?thesis using eq d st run other by blast
qed

theorem brute_force_exclusion_lookup_witness:
  "\<exists>ps. bruteForcePairs (newForce\<lparr>numberOfAtoms := 3, exclusions := (\<lambda>i. if i = 0 then [1] else [])\<rparr>) 2 0
           = Some ps
    \<and> (0, 1) \<in> set ps \<and> (0, 2) \<in> set ps \<and> (1, 2) \<notin> set ps"
proof -
  let ?s = "newForce\<lparr>numberOfAtoms := 3, exclusions := (\<lambda>i. if i = 0 then [1] else [])\<rparr>"
  have "(0::nat) < 2" by simp
  from brute_force_exclusion_lookup[OF this, of ?s "\<lambda>b i. FVec4 0 0 0 0"]
  obtain ps where a: "bruteForcePairs ?s 2 0 = Some ps"
    and b: "set ps = {(i, j). i < j \<and> j < numberOfAtoms ?s \<and> i mod 2 = 0 \<and> i \<notin> set (exclusions ?s j)}"
    by blast
  have "(0, 1) \<in> set ps \<and> (0, 2) \<in> set ps \<and> (1, 2) \<notin> set ps"
    unfolding b by simp
  with a show ?thesis by blast
qed

section \<open>The exclusion correction\<close>

lemma exclusionPairs_eq:
  assumes "0 < numThreads"
  shows "exclusionPairs s numThreads threadIndex =
    Some (pairsOf (\<lambda>i. filter (\<lambda>j. i < j) (exclusions s i))
      (strideIndices numThreads (numberOfAtoms s) threadIndex))"
  unfolding exclusionPairs_def exclusion_strideLoop[OF assms] fold_visitPair by simp

lemma exclusionDeltaR_unwrapped:
  "exclusionDeltaR s boxSize invBoxSize i j =
     (FVec4 (atomCoordinates s i 0 - atomCoordinates s j 0)
            (atomCoordinates s i 1 - atomCoordinates s j 1)
            (atomCoordinates s i 2 - atomCoordinates s j 2) 0,
      (atomCoordinates s i 0 - atomCoordinates s j 0) * (atomCoordinates s i 0 - atomCoordinates s j 0)
      + (atomCoordinates s i 1 - atomCoordinates s j 1) * (atomCoordinates s i 1 - atomCoordinates s j 1)
      + (atomCoordinates s i 2 - atomCoordinates s j 2) * (atomCoordinates s i 2 - atomCoordinates s j 2))"
  by (simp add: exclusionDeltaR_def getDeltaR_def getDeltaR_fl_def dot3_fl_def Let_def
      minus_fvec4_def lane.simps)

lemma exclusionIxn_unwrapped:
  "exclusionIxn s boxSize invBoxSize i j (forces, energy) =
     (let deltaR = FVec4 (atomCoordinates s i 0 - atomCoordinates s j 0)
                         (atomCoordinates s i 1 - atomCoordinates s j 1)
                         (atomCoordinates s i 2 - atomCoordinates s j 2) 0;
          r = sqrt ((atomCoordinates s i 0 - atomCoordinates s j 0)\<^sup>2
                    + (atomCoordinates s i 1 - atomCoordinates s j 1)\<^sup>2
                    + (atomCoordinates s i 2 - atomCoordinates s j 2)\<^sup>2);
          chargeProd = ONE_4PI_EPS0 s * posq s (4 * i + 3) * posq s (4 * j + 3);
          erfcAlphaR = lane (erfcApprox (splat (alphaEwald s * r))) 0;
          dEdR = chargeProd / r ^ 3
                 * (1 - erfcAlphaR
                    - TWO_OVER_SQRT_PI * (alphaEwald s * r) * exp (- (alphaEwald s * r)\<^sup>2));
          forces' = storev (loadv forces (4 * i) - deltaR * splat dEdR) forces (4 * i)
      in (storev (loadv forces' (4 * j) + deltaR * splat dEdR) forces' (4 * j),
          if includeEnergy s then energy - chargeProd / r * (1 - erfcAlphaR) else energy))"
  unfolding exclusionIxn_def exclusionDeltaR_unwrapped
  by (simp add: Let_def power2_eq_square power3_eq_cube divide_simps)

text \<open>
  Claim C10, as written: each excluded pair is processed exactly once.  The pass looks for
  the partners of atom \<open>i\<close> in \<^verbatim>\<open>exclusions[i]\<close> only, and keeps those above \<open>i\<close>; a pair
  recorded in the set of its higher atom alone is not processed at all.
\<close>

theorem exclusion_in_higher_set_only_is_skipped:
  "0 \<in> set (exclusions oneSided 1) \<and> exclusionPairs oneSided 1 0 = Some []"
proof -
  have "strideIndices 1 2 0 = [0, 1]"
    by (simp add: strideIndices.simps)
  then show ?thesis
    by (simp add: exclusionPairs_eq pairsOf_def oneSided_def)
qed

text \<open>
  Claim C10, amended.  In the exclusion pass worker \<open>threadIndex\<close> handles the pairs \<open>(i, j)\<close>
  with \<open>i\<close> one of its atoms, \<open>j\<close> in \<^verbatim>\<open>exclusions[i]\<close> and \<open>j > i\<close>, each once, and no other
  pair; so a pair is handled from the set of its lower-indexed atom only.  For two atoms
  at different positions, the correction of a pair is computed from the plain difference
  of the two positions and its length: neither the periodic flag nor the box enters it.
\<close>

theorem exclusion_correction_pairs:
  assumes "threadIndex < numThreads"
    and "\<forall>i<numberOfAtoms s. distinct (exclusions s i)"
  shows "\<exists>ps. exclusionPairs s numThreads threadIndex = Some ps
    \<and> distinct ps
    \<and> set ps = {(i, j). i < numberOfAtoms s \<and> i mod numThreads = threadIndex
                   \<and> j \<in> set (exclusions s i) \<and> i < j}
    \<and> (ewald s \<or> pme s \<longrightarrow>
         threadComputeDirect s ys numThreads threadIndex =
           Some (fold (\<lambda>(i, j). exclusionIxn s (fst (boxVectors s)) (snd (boxVectors s)) i j) ps
                  (fold (\<lambda>b. viaEnergyPtr (includeEnergy s)
                            (calculateBlockEwaldIxn s (ys b) b (fst (boxVectors s)) (snd (boxVectors s))))
                     (strideIndices numThreads (getNumBlocks (neighborList s)) threadIndex)
                     (\<lambda>k. 0, 0))))
    \<and> (\<forall>i j p box boxSize invBoxSize.
          exclusionDeltaR (s\<lparr>periodic := p, periodicBoxSize := box\<rparr>) boxSize invBoxSize i j =
            (FVec4 (atomCoordinates s i 0 - atomCoordinates s j 0)
                   (atomCoordinates s i 1 - atomCoordinates s j 1)
                   (atomCoordinates s i 2 - atomCoordinates s j 2) 0,
             (atomCoordinates s i 0 - atomCoordinates s j 0) * (atomCoordinates s i 0 - atomCoordinates s j 0)
             + (atomCoordinates s i 1 - atomCoordinates s j 1) * (atomCoordinates s i 1 - atomCoordinates s j 1)
             + (atomCoordinates s i 2 - atomCoordinates s j 2) * (atomCoordinates s i 2 - atomCoordinates s j 2)))
    \<and> (\<forall>i j p box boxSize invBoxSize forces energy.
          0 < (atomCoordinates s i 0 - atomCoordinates s j 0)\<^sup>2
              + (atomCoordinates s i 1 - atomCoordinates s j 1)\<^sup>2
              + (atomCoordinates s i 2 - atomCoordinates s j 2)\<^sup>2 \<longrightarrow>
          exclusionIxn (s\<lparr>periodic := p, periodicBoxSize := box\<rparr>) boxSize invBoxSize i j (forces, energy) =
            (let deltaR = FVec4 (atomCoordinates s i 0 - atomCoordinates s j 0)
                                (atomCoordinates s i 1 - atomCoordinates s j 1)
                                (atomCoordinates s i 2 - atomCoordinates s j 2) 0;
                 r = sqrt ((atomCoordinates s i 0 - atomCoordinates s j 0)\<^sup>2
                           + (atomCoordinates s i 1 - atomCoordinates s j 1)\<^sup>2
                           + (atomCoordinates s i 2 - atomCoordinates s j 2)\<^sup>2);
                 chargeProd = ONE_4PI_EPS0 s * posq s (4 * i + 3) * posq s (4 * j + 3);
                 erfcAlphaR = lane (erfcApprox (splat (alphaEwald s * r))) 0;
                 dEdR = chargeProd / r ^ 3
                        * (1 - erfcAlphaR
                           - TWO_OVER_SQRT_PI * (alphaEwald s * r) * exp (- (alphaEwald s * r)\<^sup>2));
                 forces' = storev (loadv forces (4 * i) - deltaR * splat dEdR) forces (4 * i)
             in (storev (loadv forces' (4 * j) + deltaR * splat dEdR) forces' (4 * j),
                 if includeEnergy s then energy - chargeProd / r * (1 - erfcAlphaR) else energy)))"
proof -
  have T: "0 < numThreads" using assms by simp
  define ps where "ps = pairsOf (\<lambda>i. filter (\<lambda>j. i < j) (exclusions s i))
      (strideIndices numThreads (numberOfAtoms s) threadIndex)"
  have eq: "exclusionPairs s numThreads threadIndex = Some ps"
    by (simp add: exclusionPairs_eq[OF T] ps_def)
  have d: "distinct ps"
    unfolding ps_def
  proof (rule distinct_pairsOf)
    show "distinct (strideIndices numThreads (numberOfAtoms s) threadIndex)"
      by (rule distinct_strideIndices)
  next
    fix i assume "i \<in> set (strideIndices numThreads (numberOfAtoms s) threadIndex)"
    then have "i < numberOfAtoms s"
      by (simp add: set_strideIndices[OF assms(1)])
    with assms(2) show "distinct (filter (\<lambda>j. i < j) (exclusions s i))"
      by simp
  qed
  have st: "set ps = {(i, j). i < numberOfAtoms s \<and> i mod numThreads = threadIndex
                   \<and> j \<in> set (exclusions s i) \<and> i < j}"
    unfolding ps_def set_pairsOf set_strideIndices[OF assms(1)] by auto
  have run: "threadComputeDirect s ys numThreads threadIndex =
      Some (fold (\<lambda>(i, j). exclusionIxn s (fst (boxVectors s)) (snd (boxVectors s)) i j) ps
             (fold (\<lambda>b. viaEnergyPtr (includeEnergy s)
                       (calculateBlockEwaldIxn s (ys b) b (fst (boxVectors s)) (snd (boxVectors s))))
                (strideIndices numThreads (getNumBlocks (neighborList s)) threadIndex)
                (\<lambda>k. 0, 0)))"
    if "ewald s \<or> pme s"
    unfolding threadComputeDirect_def Let_def exclusion_strideLoop[OF T] ps_def
    using that by (simp add: case_prod_beta strideLoop_fold[OF T])
  have ixn: "exclusionIxn (s\<lparr>periodic := p, periodicBoxSize := box\<rparr>) boxSize invBoxSize i j (forces, energy) =
            (let deltaR = FVec4 (atomCoordinates s i 0 - atomCoordinates s j 0)
                                (atomCoordinates s i 1 - atomCoordinates s j 1)
                                (atomCoordinates s i 2 - atomCoordinates s j 2) 0;
                 r = sqrt ((atomCoordinates s i 0 - atomCoordinates s j 0)\<^sup>2
                           + (atomCoordinates s i 1 - atomCoordinates s j 1)\<^sup>2
                           + (atomCoordinates s i 2 - atomCoordinates s j 2)\<^sup>2);
                 chargeProd = ONE_4PI_EPS0 s * posq s (4 * i + 3) * posq s (4 * j + 3);
                 erfcAlphaR = lane (erfcApprox (splat (alphaEwald s * r))) 0;
                 dEdR = chargeProd / r ^ 3
                        * (1 - erfcAlphaR
                           - TWO_OVER_SQRT_PI * (alphaEwald s * r) * exp (- (alphaEwald s * r)\<^sup>2));
                 forces' = storev (loadv forces (4 * i) - deltaR * splat dEdR) forces (4 * i)
             in (storev (loadv forces' (4 * j) + deltaR * splat dEdR) forces' (4 * j),
                 if includeEnergy s then energy - chargeProd / r * (1 - erfcAlphaR) else energy))"
    for i j p box boxSize invBoxSize forces energy
    unfolding exclusionIxn_unwrapped by simp
  show ?thesis
    using eq d st run ixn by (simp add: exclusionDeltaR_unwrapped)
qed

lemma sqrt_9: "sqrt 9 = 3"
  using real_sqrt_abs[of 3] by simp

text \<open>In a periodic box of width 1 the two charges of \<open>excludedPair\<close> are three widths apart:
  the pair is handled once, and its correction is computed at the distance 3.\<close>

theorem exclusion_correction_pairs_witness:
  "exclusionPairs excludedPair 1 0 = Some [(0, 1)]
   \<and> fst (exclusionIxn excludedPair (fst (boxVectors excludedPair)) (snd (boxVectors excludedPair))
            0 1 (\<lambda>k. 0, 0)) 4
     = - 3 * (ONE_4PI_EPS0 excludedPair / 27
              * (1 - lane (erfcApprox (splat 3)) 0 - TWO_OVER_SQRT_PI * 3 * exp (- 9)))"
proof -
  let ?s = "excludedPair"
  have t: "(0::nat) < 1" by simp
  have e: "\<forall>i<numberOfAtoms ?s. distinct (exclusions ?s i)"
    by (simp add: excludedPair_def)
  from exclusion_correction_pairs[OF t e, of "\<lambda>b i. FVec4 0 0 0 0"]
  obtain ps where a: "exclusionPairs ?s 1 0 = Some ps" and d: "distinct ps"
    and b: "set ps = {(i, j). i < numberOfAtoms ?s \<and> i mod 1 = 0 \<and> j \<in> set (exclusions ?s i) \<and> i < j}"
    and c: "\<forall>i j p box boxSize invBoxSize forces energy.
          0 < (atomCoordinates ?s i 0 - atomCoordinates ?s j 0)\<^sup>2
              + (atomCoordinates ?s i 1 - atomCoordinates ?s j 1)\<^sup>2
              + (atomCoordinates ?s i 2 - atomCoordinates ?s j 2)\<^sup>2 \<longrightarrow>
          exclusionIxn (?s\<lparr>periodic := p, periodicBoxSize := box\<rparr>) boxSize invBoxSize i j (forces, energy) =
            (let deltaR = FVec4 (atomCoordinates ?s i 0 - atomCoordinates ?s j 0)
                                (atomCoordinates ?s i 1 - atomCoordinates ?s j 1)
                                (atomCoordinates ?s i 2 - atomCoordinates ?s j 2) 0;
                 r = sqrt ((atomCoordinates ?s i 0 - atomCoordinates ?s j 0)\<^sup>2
                           + (atomCoordinates ?s i 1 - atomCoordinates ?s j 1)\<^sup>2
                           + (atomCoordinates ?s i 2 - atomCoordinates ?s j 2)\<^sup>2);
                 chargeProd = ONE_4PI_EPS0 ?s * posq ?s (4 * i + 3) * posq ?s (4 * j + 3);
                 erfcAlphaR = lane (erfcApprox (splat (alphaEwald ?s * r))) 0;
                 dEdR = chargeProd / r ^ 3
                        * (1 - erfcAlphaR
                           - TWO_OVER_SQRT_PI * (alphaEwald ?s * r) * exp (- (alphaEwald ?s * r)\<^sup>2));
                 forces' = storev (loadv forces (4 * i) - deltaR * splat dEdR) forces (4 * i)
             in (storev (loadv forces' (4 * j) + deltaR * splat dEdR) forces' (4 * j),
                 if includeEnergy ?s then energy - chargeProd / r * (1 - erfcAlphaR) else energy))"
    by blast
  have same: "?s\<lparr>periodic := True, periodicBoxSize := (\<lambda>k. 1)\<rparr> = ?s"
    by (simp add: excludedPair_def)
  have "set ps = {(0, 1)}"
    unfolding b by (auto simp: excludedPair_def split: if_splits)
  with d have ps: "ps = [(0, 1)]"
  proof (cases ps)
    case (Cons x xs)
    with d \<open>set ps = {(0, 1)}\<close> have "x = (0, 1)" "set xs \<subseteq> {(0, 1)}" "x \<notin> set xs"
      by auto
    then have "xs = []"
      by (cases xs) auto
    with Cons \<open>x = (0, 1)\<close> show ?thesis by simp
  qed simp
  have "fst (exclusionIxn (?s\<lparr>periodic := True, periodicBoxSize := (\<lambda>k. 1)\<rparr>)
            (fst (boxVectors ?s)) (snd (boxVectors ?s)) 0 1 (\<lambda>k. 0, 0)) 4
     = - 3 * (ONE_4PI_EPS0 ?s / 27
              * (1 - lane (erfcApprox (splat 3)) 0 - TWO_OVER_SQRT_PI * 3 * exp (- 9)))"
    using c[rule_format, where i = 0 and j = 1 and p = True and box = "\<lambda>k. 1"
        and boxSize = "fst (boxVectors ?s)" and invBoxSize = "snd (boxVectors ?s)"
        and forces = "\<lambda>k. 0" and energy = 0]
    by (simp add: excludedPair_def Let_def sqrt_9 storev_def loadv_def lane.simps
        minus_fvec4_def plus_fvec4_def times_fvec4_def splat_def)
  then show ?thesis
    using a ps unfolding same by simp
qed

section \<open>The reduction\<close>

lemma threadComputeDirect_returns:
  assumes "0 < numThreads"
  shows "\<exists>r. threadComputeDirect s ys numThreads threadIndex = Some r"
  unfolding threadComputeDirect_def Let_def
  by (simp add: strideLoop_fold[OF assms] case_prod_beta)

lemma those_map_Some:
  "(\<And>x. x \<in> set xs \<Longrightarrow> \<exists>y. f x = Some y) \<Longrightarrow> those (map f xs) = Some (map (\<lambda>x. the (f x)) xs)"
proof (induction xs)
  case Nil
  then show ?case by simp
next
  case (Cons x xs)
  then obtain y where "f x = Some y" by auto
  with Cons show ?case by simp
qed

lemma lane_loadv: "c < 4 \<Longrightarrow> lane (loadv p k) c = p (k + c)"
proof -
  assume "c < 4"
  then consider "c = 0" | "c = 1" | "c = 2" | "c = 3" by linarith
  then show ?thesis by cases (simp_all add: loadv_def)
qed

lemma storev_apply:
  "storev v p k q = (if k \<le> q \<and> q < k + 4 then lane v (q - k) else p q)"
proof (cases "k \<le> q \<and> q < k + 4")
  case True
  then consider "q = k" | "q = k + 1" | "q = k + 2" | "q = k + 3" by linarith
  then show ?thesis by cases (simp_all add: storev_def)
next
  case False
  then show ?thesis by (auto simp: storev_def)
qed

lemma fold_energy_sum:
  "fold (\<lambda>i e. e + es ! i) [0..<n] (e0::real) = e0 + (\<Sum>j<n. es ! j)"
  by (induction n) simp_all

lemma fold_force_sum:
  "lane (fold (\<lambda>j f. f + loadv (tf ! j) k) [0..<n] v) c = lane v c + (\<Sum>j<n. lane (loadv (tf ! j) k) c)"
  by (induction n) simp_all

lemma reduce_forces:
  fixes tf :: "buffer list"
  defines "step \<equiv> (\<lambda>i forces. storev (fold (\<lambda>j f. f + loadv (tf ! j) (4 * i)) [0..<length tf]
                                     (loadv forces (4 * i))) forces (4 * i))"
  shows "fold step [0..<n] forces q =
    (if q < 4 * n then forces q + (\<Sum>j<length tf. (tf ! j) q) else forces q)"
proof (induction n arbitrary: q)
  case 0
  then show ?case by simp
next
  case (Suc n)
  define g where "g = fold step [0..<n] forces"
  have g: "g q = (if q < 4 * n then forces q + (\<Sum>j<length tf. (tf ! j) q) else forces q)" for q
    using Suc by (simp add: g_def)
  have f: "fold step [0..<Suc n] forces = step n g"
    by (simp add: g_def)
  show ?case
  proof (cases "4 * n \<le> q \<and> q < 4 * n + 4")
    case True
    then have c: "q - 4 * n < 4" and q: "4 * n + (q - 4 * n) = q" by linarith+
    have "step n g q = lane (fold (\<lambda>j f. f + loadv (tf ! j) (4 * n)) [0..<length tf]
        (loadv g (4 * n))) (q - 4 * n)"
      using True by (simp add: step_def storev_apply)
    also have "\<dots> = g q + (\<Sum>j<length tf. (tf ! j) q)"
      by (simp add: fold_force_sum lane_loadv[OF c] q)
    finally show ?thesis unfolding f using True by (simp add: g)
  next
    case False
    then have "step n g q = g q"
      unfolding step_def storev_apply by auto
    with False show ?thesis unfolding f by (auto simp: g)
  qed
qed

text \<open>
  Claim C8.  \<^verbatim>\<open>calculateDirectIxn\<close> returns, and it adds to the caller's buffers: each of
  the four slots of every atom holds its incoming value plus the sum over the workers of
  the worker's own partial for that slot, the slots beyond the atoms keep their value, and
  the sum of the workers' energies is added to the energy when the pointer is not null (and
  nothing is written when it is).
\<close>

theorem calculateDirectIxn_accumulates:
  "\<exists>s' forces'.
     calculateDirectIxn s ys n posq' coords params excl forces totalEnergy numThreads =
       Some (s', forces',
             (case totalEnergy of
                None \<Rightarrow> None
              | Some e \<Rightarrow> Some (e + (\<Sum>j<numThreads. threadEnergy s' ! j))))
     \<and> includeEnergy s' = (totalEnergy \<noteq> None)
     \<and> length (threadForce s') = numThreads \<and> length (threadEnergy s') = numThreads
     \<and> (\<forall>j<numThreads.
          threadComputeDirect
            (s\<lparr>numberOfAtoms := n, posq := posq', atomCoordinates := coords, atomParameters := params,
               exclusions := excl, includeEnergy := (totalEnergy \<noteq> None)\<rparr>) ys numThreads j
          = Some (threadForce s' ! j, threadEnergy s' ! j))
     \<and> (\<forall>i<n. \<forall>c<4. forces' (4 * i + c) = forces (4 * i + c) + (\<Sum>j<numThreads. (threadForce s' ! j) (4 * i + c)))
     \<and> (\<forall>q\<ge>4 * n. forces' q = forces q)"
proof -
  define s1 where "s1 = s\<lparr>numberOfAtoms := n, posq := posq', atomCoordinates := coords,
      atomParameters := params, exclusions := excl, includeEnergy := (totalEnergy \<noteq> None)\<rparr>"
  define results where "results = map (\<lambda>j. the (threadComputeDirect s1 ys numThreads j)) [0..<numThreads]"
  define s' where "s' = s1\<lparr>threadEnergy := map snd results, threadForce := map fst results\<rparr>"
  define forces' where "forces' = fold (\<lambda>i forces.
      storev (fold (\<lambda>j f. f + loadv (threadForce s' ! j) (4 * i)) [0..<numThreads] (loadv forces (4 * i)))
        forces (4 * i)) [0..<n] forces"
  have th: "those (map (threadComputeDirect s1 ys numThreads) [0..<numThreads]) = Some results"
    unfolding results_def
  proof (rule those_map_Some)
    fix j assume "j \<in> set [0..<numThreads]"
    then have "0 < numThreads" by auto
    then show "\<exists>y. threadComputeDirect s1 ys numThreads j = Some y"
      by (rule threadComputeDirect_returns)
  qed
  have len: "length (threadForce s') = numThreads" "length (threadEnergy s') = numThreads"
    by (simp_all add: s'_def results_def)
  have run: "calculateDirectIxn s ys n posq' coords params excl forces totalEnergy numThreads =
      Some (s', forces', map_option (\<lambda>e. e + fold (\<lambda>i e. e + threadEnergy s' ! i) [0..<numThreads] 0)
        totalEnergy)"
    unfolding calculateDirectIxn_def Let_def s1_def[symmetric] th
    by (simp add: s'_def forces'_def)
  have en: "map_option (\<lambda>e. e + fold (\<lambda>i e. e + threadEnergy s' ! i) [0..<numThreads] 0) totalEnergy =
      (case totalEnergy of None \<Rightarrow> None | Some e \<Rightarrow> Some (e + (\<Sum>j<numThreads. threadEnergy s' ! j)))"
    by (cases totalEnergy) (simp_all add: fold_energy_sum)
  have inc: "includeEnergy s' = (totalEnergy \<noteq> None)"
    by (simp add: s'_def s1_def)
  have part: "threadComputeDirect s1 ys numThreads j = Some (threadForce s' ! j, threadEnergy s' ! j)"
    if "j < numThreads" for j
  proof -
    from that have "0 < numThreads" by simp
    from threadComputeDirect_returns[OF this, of s1 ys j]
    obtain r where "threadComputeDirect s1 ys numThreads j = Some r" ..
    then show ?thesis using that by (simp add: s'_def results_def)
  qed
  have fo: "forces' q = (if q < 4 * n then forces q + (\<Sum>j<numThreads. (threadForce s' ! j) q) else forces q)"
    for q
    using reduce_forces[of "threadForce s'" n forces q] by (simp add: forces'_def len)
  have slot: "forces' (4 * i + c) = forces (4 * i + c) + (\<Sum>j<numThreads. (threadForce s' ! j) (4 * i + c))"
    if "i < n" "c < 4" for i c
  proof -
    from that have "4 * i + c < 4 * n" by simp
    then show ?thesis by (simp add: fo)
  qed
  have rest: "forces' q = forces q" if "4 * n \<le> q" for q
    using that by (simp add: fo)
  show ?thesis
    using run en inc len part slot rest unfolding s1_def by (intro exI[of _ s'] exI[of _ forces']) simp
qed

theorem calculateDirectIxn_accumulates_witness:
  "\<exists>s' forces'.
     calculateDirectIxn newForce (\<lambda>b i. FVec4 0 0 0 0) 1 (\<lambda>k. 0) (\<lambda>i k. 0) (\<lambda>i. (0, 0)) (\<lambda>i. [])
         (\<lambda>k. 7) (Some 5) 1 =
       Some (s', forces', Some (5 + (\<Sum>j<1. threadEnergy s' ! j)))
     \<and> forces' (4 * 0 + 2) = 7 + (\<Sum>j<1. (threadForce s' ! j) (4 * 0 + 2))
     \<and> forces' 4 = 7"
proof -
  from calculateDirectIxn_accumulates[of newForce "\<lambda>b i. FVec4 0 0 0 0" 1 "\<lambda>k. 0" "\<lambda>i k. 0"
      "\<lambda>i. (0, 0)" "\<lambda>i. []" "\<lambda>k. 7" "Some 5" 1]
  obtain s' forces' where
    a: "calculateDirectIxn newForce (\<lambda>b i. FVec4 0 0 0 0) 1 (\<lambda>k. 0) (\<lambda>i k. 0) (\<lambda>i. (0, 0)) (\<lambda>i. [])
         (\<lambda>k. 7) (Some 5) 1 = Some (s', forces', Some (5 + (\<Sum>j<1. threadEnergy s' ! j)))"
    and b: "\<forall>i<1. \<forall>c<4. forces' (4 * i + c) = 7 + (\<Sum>j<1. (threadForce s' ! j) (4 * i + c))"
    and c: "\<forall>q\<ge>4 * 1. forces' q = 7"
    by auto
  from b have "forces' (4 * 0 + 2) = 7 + (\<Sum>j<1. (threadForce s' ! j) (4 * 0 + 2))"
    by (elim allE[of _ 0] impE allE[of _ 2]) simp_all
  moreover from c have "forces' 4 = 7" by simp
  ultimately show ?thesis using a by blast
qed

section \<open>The Lennard-Jones terms\<close>

lemma switchOne_off: "\<not> useSwitch s \<Longrightarrow> switchOne s r = (1, 0)"
  by (simp add: switchOne_def)

lemma calculateOneIxn_spec:
  assumes d: "getDeltaR (loadv (posq s) (4 * jj)) (loadv (posq s) (4 * ii)) (periodic s) boxSize invBoxSize
      = (deltaR, r2)"
    and inc: "\<not> (cutoff s \<and> r2 \<ge> cutoffDistance s * cutoffDistance s)"
    and sw: "switchOne s (sqrt r2) = (switchValue, switchDeriv)"
  shows "calculateOneIxn s ii jj boxSize invBoxSize (forces, totalEnergy) =
    (let q = ONE_4PI_EPS0 s * posq s (4 * ii + 3) * posq s (4 * jj + 3);
         dEdR = applied_dEdR s switchValue switchDeriv (fst (atomParameters s ii)) (fst (atomParameters s jj))
                  (snd (atomParameters s ii)) (snd (atomParameters s jj)) q r2;
         energy = pair_energy s switchValue (fst (atomParameters s ii)) (fst (atomParameters s jj))
                  (snd (atomParameters s ii)) (snd (atomParameters s jj)) q r2;
         result = deltaR * splat dEdR;
         forces = storev (loadv forces (4 * ii) + result) forces (4 * ii);
         forces = storev (loadv forces (4 * jj) - result) forces (4 * jj)
     in (forces, map_option (\<lambda>e. e + energy) totalEnergy))"
proof -
  have off: "switchValue = 1 \<and> switchDeriv = 0" if "\<not> useSwitch s"
    using sw switchOne_off[OF that, of "sqrt r2"] by simp
  define inverseR where "inverseR = 1 / sqrt r2"
  define sig where "sig = fst (atomParameters s ii) + fst (atomParameters s jj)"
  define eps where "eps = snd (atomParameters s ii) * snd (atomParameters s jj)"
  define q where "q = ONE_4PI_EPS0 s * posq s (4 * ii + 3) * posq s (4 * jj + 3)"
  have sig6: "spec_sig6 (fst (atomParameters s ii)) (fst (atomParameters s jj)) inverseR
      = inverseR * sig * (inverseR * sig) * (inverseR * sig * (inverseR * sig))
        * (inverseR * sig * (inverseR * sig))"
    by (simp add: spec_sig6_def sig_def power2_eq_square power3_eq_cube algebra_simps)
  define sig6 where "sig6 = inverseR * sig * (inverseR * sig) * (inverseR * sig * (inverseR * sig))
        * (inverseR * sig * (inverseR * sig))"
  have dE: "applied_dEdR s switchValue switchDeriv (fst (atomParameters s ii)) (fst (atomParameters s jj))
      (snd (atomParameters s ii)) (snd (atomParameters s jj)) q r2 =
      (switchValue * eps * (12 * sig6 - 6) * sig6
        + (if cutoff s then q * (inverseR - 2 * krf s * r2) else q * inverseR)) * (inverseR * inverseR)
      - eps * (sig6 - 1) * sig6 * switchDeriv * inverseR"
    unfolding applied_dEdR_def Let_def inverseR_def[symmetric] sig6 sig6_def[symmetric]
    by (simp add: spec_ljForce_def spec_ljEnergy_def spec_coulombForce_def eps_def inverseR_def
        power2_eq_square)
  have en: "pair_energy s switchValue (fst (atomParameters s ii)) (fst (atomParameters s jj))
      (snd (atomParameters s ii)) (snd (atomParameters s jj)) q r2 =
      eps * (sig6 - 1) * sig6 * switchValue
      + (if cutoff s then q * (inverseR + krf s * r2 - crf s) else q * inverseR)"
    unfolding pair_energy_def inverseR_def[symmetric] sig6 sig6_def[symmetric]
    by (simp add: spec_ljEnergy_def spec_coulombEnergy_def eps_def inverseR_def)
  show ?thesis
    unfolding calculateOneIxn_def Let_def prod.case d sw q_def[symmetric] dE en
    unfolding inverseR_def[symmetric] sig_def[symmetric] eps_def[symmetric] sig6_def[symmetric]
    using inc off by (cases totalEnergy; cases "useSwitch s"; cases "cutoff s") simp_all
qed


lemma nth4_transpose4:
  "nth4 (transpose4 (a, b, c, d)) j = FVec4 (lane a j) (lane b j) (lane c j) (lane d j)"
  by (cases a; cases b; cases c; cases d) (simp add: transpose4_def lane.simps)

lemma sum_lessThan_4: "(\<Sum>j<(4::nat). f j) = f 0 + f 1 + f 2 + (f 3 :: real)"
  by (simp add: eval_nat_numeral)

lemma accumulateEnergy_sum:
  "accumulateEnergy inc energy e = e + (\<Sum>j<4. if inc j then lane energy j else 0)"
  by (simp add: accumulateEnergy_def sum_lessThan_4)

lemma accumulateForces_eq:
  "accumulateForces inc res (baf, af) =
     (\<lambda>j. if j < 4 \<and> inc j then baf j + nth4 res j else baf j,
      fold (\<lambda>j af. if inc j then af - nth4 res j else af) [0, 1, 2, 3] af)"
proof -
  have "fst (accumulateForces inc res (baf, af)) j = (if j < 4 \<and> inc j then baf j + nth4 res j else baf j)"
    for j
  proof -
    consider "j = 0" | "j = 1" | "j = 2" | "j = 3" | "4 \<le> j" by linarith
    then show ?thesis
      by cases (simp_all add: accumulateForces_def)
  qed
  moreover have "snd (accumulateForces inc res (baf, af)) =
      fold (\<lambda>j af. if inc j then af - nth4 res j else af) [0, 1, 2, 3] af"
    by (simp add: accumulateForces_def)
  ultimately show ?thesis
    by (intro prod_eqI ext) simp_all
qed

lemma storev_loadv [simp]: "storev (loadv p k) p k = p"
proof (rule ext)
  fix q
  show "storev (loadv p k) p k q = p q"
  proof (cases "k \<le> q \<and> q < k + 4")
    case True
    then have c: "q - k < 4" and e: "k + (q - k) = q" by linarith+
    have "lane (loadv p k) (q - k) = p q"
      unfolding lane_loadv[OF c] e ..
    then show ?thesis using True by (simp add: storev_apply)
  next
    case False
    then show ?thesis unfolding storev_apply by auto
  qed
qed

lemma switchBlock_off: "\<not> useSwitch s \<Longrightarrow> switchBlock s r = (splat 1, splat 0)"
  by (simp add: switchBlock_def)

lemma spec_sig6_lane:
  "spec_sig6 a b inverseR =
     inverseR * (a + b) * (inverseR * (a + b)) * (inverseR * (a + b) * (inverseR * (a + b)))
       * (inverseR * (a + b) * (inverseR * (a + b)))"
  by (simp add: spec_sig6_def power2_eq_square power3_eq_cube algebra_simps)

lemma blockNeighborIxn_spec:
  assumes g: "getDeltaR_block (loadv (posq s) (4 * atom)) (blockAtomX b) (blockAtomY b) (blockAtomZ b)
      needPeriodic boxSize invBoxSize = (dx, dy, dz, r2)"
    and sw: "switchBlock s (vsqrt r2) = (switchValue, switchDeriv)"
  shows "blockNeighborIxn s b needPeriodic boxSize invBoxSize atom excl (baf, forces, totalEnergy) =
    (let include = (\<lambda>j. \<not> bit excl j \<and> (\<not> cutoff s \<or> lane r2 j < cutoffDistance s * cutoffDistance s));
         dEdR = (\<lambda>j. applied_dEdR s (lane switchValue j) (lane switchDeriv j)
                   (lane (blockAtomSigma b) j) (fst (atomParameters s atom))
                   (lane (blockAtomEpsilon b) j) (snd (atomParameters s atom))
                   (lane (blockAtomCharge b) j * posq s (4 * atom + 3)) (lane r2 j));
         energy = (\<lambda>j. pair_energy s (lane switchValue j)
                   (lane (blockAtomSigma b) j) (fst (atomParameters s atom))
                   (lane (blockAtomEpsilon b) j) (snd (atomParameters s atom))
                   (lane (blockAtomCharge b) j * posq s (4 * atom + 3)) (lane r2 j));
         result = (\<lambda>j. FVec4 (lane dx j * dEdR j) (lane dy j * dEdR j) (lane dz j * dEdR j) 0)
     in (\<lambda>j. if j < 4 \<and> include j then baf j + result j else baf j,
         storev (fold (\<lambda>j af. if include j then af - result j else af) [0, 1, 2, 3]
                   (loadv forces (4 * atom))) forces (4 * atom),
         map_option (\<lambda>e. e + (\<Sum>j<4. if include j then energy j else 0)) totalEnergy))"
proof -
  define incl where
    "incl = (\<lambda>j. \<not> bit excl j \<and> (\<not> cutoff s \<or> lane r2 j < cutoffDistance s * cutoffDistance s))"
  define dEdR where "dEdR = (\<lambda>j. applied_dEdR s (lane switchValue j) (lane switchDeriv j)
                   (lane (blockAtomSigma b) j) (fst (atomParameters s atom))
                   (lane (blockAtomEpsilon b) j) (snd (atomParameters s atom))
                   (lane (blockAtomCharge b) j * posq s (4 * atom + 3)) (lane r2 j))"
  define energy where "energy = (\<lambda>j. pair_energy s (lane switchValue j)
                   (lane (blockAtomSigma b) j) (fst (atomParameters s atom))
                   (lane (blockAtomEpsilon b) j) (snd (atomParameters s atom))
                   (lane (blockAtomCharge b) j * posq s (4 * atom + 3)) (lane r2 j))"
  define result where
    "result = (\<lambda>j. FVec4 (lane dx j * dEdR j) (lane dy j * dEdR j) (lane dz j * dEdR j) 0)"
  have off: "switchValue = splat 1 \<and> switchDeriv = splat 0" if "\<not> useSwitch s"
    using sw switchBlock_off[OF that, of "vsqrt r2"] by simp
  text \<open>the vectors the code computes\<close>
  define inverseR where "inverseR = splat 1 / vsqrt r2"
  define sig2 where "sig2 = inverseR * (blockAtomSigma b + splat (fst (atomParameters s atom)))"
  define sig6 where "sig6 = sig2 * sig2 * (sig2 * sig2) * (sig2 * sig2)"
  define eps where "eps = blockAtomEpsilon b * splat (snd (atomParameters s atom))"
  define chargeProd where "chargeProd = blockAtomCharge b * splat (posq s (4 * atom + 3))"
  define dEdR0 where "dEdR0 = switchValue * eps * (splat 12 * sig6 - splat 6) * sig6"
  define dEdR1 where "dEdR1 = (if cutoff s then dEdR0 + chargeProd * (inverseR - splat (2 * krf s) * r2)
                              else dEdR0 + chargeProd * inverseR) * (inverseR * inverseR)"
  define energy0 where "energy0 = eps * (sig6 - splat 1) * sig6"
  define dEdRv where "dEdRv = (if useSwitch s then dEdR1 - energy0 * switchDeriv * inverseR else dEdR1)"
  define energy1 where "energy1 = (if useSwitch s then energy0 * switchValue else energy0)"
  define energyv where "energyv = (if cutoff s
      then energy1 + chargeProd * (inverseR + splat (krf s) * r2 - splat (crf s))
      else energy1 + chargeProd * inverseR)"
  have lane_dEdR: "lane dEdRv j = dEdR j" for j
    using off
    by (cases "useSwitch s"; cases "cutoff s")
       (simp_all add: dEdRv_def dEdR1_def dEdR0_def energy0_def sig6_def sig2_def eps_def
          chargeProd_def inverseR_def dEdR_def applied_dEdR_def Let_def spec_sig6_lane spec_ljForce_def
          spec_ljEnergy_def spec_coulombForce_def power2_eq_square)
  have lane_energy: "lane energyv j = energy j" for j
    using off
    by (cases "useSwitch s"; cases "cutoff s")
       (simp_all add: energyv_def energy1_def energy0_def sig6_def sig2_def eps_def
          chargeProd_def inverseR_def energy_def pair_energy_def spec_sig6_lane
          spec_ljEnergy_def spec_coulombEnergy_def)
  have res: "nth4 (transpose4 (dx * dEdRv, dy * dEdRv, dz * dEdRv, splat 0)) j = result j" for j
    by (simp add: nth4_transpose4 result_def lane_dEdR)
  have code: "blockNeighborIxn s b needPeriodic boxSize invBoxSize atom excl (baf, forces, totalEnergy) =
      (if \<not> (incl 0 \<or> incl 1 \<or> incl 2 \<or> incl 3) then (baf, forces, totalEnergy)
       else (case accumulateForces incl (transpose4 (dx * dEdRv, dy * dEdRv, dz * dEdRv, splat 0))
                    (baf, loadv forces (4 * atom)) of
               (baf', atomForce) \<Rightarrow>
                 (baf', storev atomForce forces (4 * atom),
                  map_option (accumulateEnergy incl energyv) totalEnergy)))"
    by (cases totalEnergy)
       (simp_all add: blockNeighborIxn_def Let_def g sw incl_def inverseR_def sig2_def eps_def
          chargeProd_def sig6_def dEdR0_def energy0_def dEdR1_def dEdRv_def energy1_def energyv_def
          mult.assoc)
  have none: "(\<lambda>j. if j < 4 \<and> incl j then baf j + result j else baf j) = baf
      \<and> fold (\<lambda>j af. if incl j then af - result j else af) [0, 1, 2, 3] (loadv forces (4 * atom))
          = loadv forces (4 * atom)
      \<and> (\<Sum>j<4. if incl j then energy j else 0) = 0"
    if "\<not> (incl 0 \<or> incl 1 \<or> incl 2 \<or> incl 3)"
  proof -
    have "\<not> incl j" if "j < 4" for j
    proof -
      from that consider "j = 0" | "j = 1" | "j = 2" | "j = 3" by linarith
      then show ?thesis using \<open>\<not> (incl 0 \<or> incl 1 \<or> incl 2 \<or> incl 3)\<close> by cases simp_all
    qed
    then have "(\<lambda>j. if j < 4 \<and> incl j then baf j + result j else baf j) = baf"
      by (intro ext) auto
    then show ?thesis using that by (simp add: sum_lessThan_4)
  qed
  have goal: "blockNeighborIxn s b needPeriodic boxSize invBoxSize atom excl (baf, forces, totalEnergy) =
      (\<lambda>j. if j < 4 \<and> incl j then baf j + result j else baf j,
         storev (fold (\<lambda>j af. if incl j then af - result j else af) [0, 1, 2, 3]
                   (loadv forces (4 * atom))) forces (4 * atom),
         map_option (\<lambda>e. e + (\<Sum>j<4. if incl j then energy j else 0)) totalEnergy)"
  proof (cases "incl 0 \<or> incl 1 \<or> incl 2 \<or> incl 3")
    case True
    then show ?thesis
      unfolding code
      by (cases totalEnergy)
         (simp_all add: accumulateForces_eq res accumulateEnergy_sum lane_energy cong: if_cong)
  next
    case False
    then show ?thesis
      unfolding code using none[OF False] by (cases totalEnergy) simp_all
  qed
  show ?thesis
    using goal unfolding incl_def dEdR_def energy_def result_def Let_def .
qed


lemma sqrt_1089: "sqrt (1089 / 10000) = 33 / 100"
  using real_sqrt_abs[of "33 / 100"] by (simp add: power2_eq_square)

lemma loadBlock_fields:
  "blockAtom (loadBlock s blockIndex) = (\<lambda>j. getSortedAtoms (neighborList s) ! (4 * blockIndex + j))"
  "blockAtomX (loadBlock s blockIndex) =
     FVec4 (posq s (4 * (getSortedAtoms (neighborList s) ! (4 * blockIndex + 0))))
           (posq s (4 * (getSortedAtoms (neighborList s) ! (4 * blockIndex + 1))))
           (posq s (4 * (getSortedAtoms (neighborList s) ! (4 * blockIndex + 2))))
           (posq s (4 * (getSortedAtoms (neighborList s) ! (4 * blockIndex + 3))))"
  "blockAtomY (loadBlock s blockIndex) =
     FVec4 (posq s (4 * (getSortedAtoms (neighborList s) ! (4 * blockIndex + 0)) + 1))
           (posq s (4 * (getSortedAtoms (neighborList s) ! (4 * blockIndex + 1)) + 1))
           (posq s (4 * (getSortedAtoms (neighborList s) ! (4 * blockIndex + 2)) + 1))
           (posq s (4 * (getSortedAtoms (neighborList s) ! (4 * blockIndex + 3)) + 1))"
  "blockAtomZ (loadBlock s blockIndex) =
     FVec4 (posq s (4 * (getSortedAtoms (neighborList s) ! (4 * blockIndex + 0)) + 2))
           (posq s (4 * (getSortedAtoms (neighborList s) ! (4 * blockIndex + 1)) + 2))
           (posq s (4 * (getSortedAtoms (neighborList s) ! (4 * blockIndex + 2)) + 2))
           (posq s (4 * (getSortedAtoms (neighborList s) ! (4 * blockIndex + 3)) + 2))"
  "blockAtomCharge (loadBlock s blockIndex) =
     FVec4 (ONE_4PI_EPS0 s * posq s (4 * (getSortedAtoms (neighborList s) ! (4 * blockIndex + 0)) + 3))
           (ONE_4PI_EPS0 s * posq s (4 * (getSortedAtoms (neighborList s) ! (4 * blockIndex + 1)) + 3))
           (ONE_4PI_EPS0 s * posq s (4 * (getSortedAtoms (neighborList s) ! (4 * blockIndex + 2)) + 3))
           (ONE_4PI_EPS0 s * posq s (4 * (getSortedAtoms (neighborList s) ! (4 * blockIndex + 3)) + 3))"
  "blockAtomSigma (loadBlock s blockIndex) =
     FVec4 (fst (atomParameters s (getSortedAtoms (neighborList s) ! (4 * blockIndex + 0))))
           (fst (atomParameters s (getSortedAtoms (neighborList s) ! (4 * blockIndex + 1))))
           (fst (atomParameters s (getSortedAtoms (neighborList s) ! (4 * blockIndex + 2))))
           (fst (atomParameters s (getSortedAtoms (neighborList s) ! (4 * blockIndex + 3))))"
  "blockAtomEpsilon (loadBlock s blockIndex) =
     FVec4 (snd (atomParameters s (getSortedAtoms (neighborList s) ! (4 * blockIndex + 0))))
           (snd (atomParameters s (getSortedAtoms (neighborList s) ! (4 * blockIndex + 1))))
           (snd (atomParameters s (getSortedAtoms (neighborList s) ! (4 * blockIndex + 2))))
           (snd (atomParameters s (getSortedAtoms (neighborList s) ! (4 * blockIndex + 3))))"
  by (simp_all add: loadBlock_def Let_def loadv_def lane.simps times_fvec4_def splat_def)

lemma calculateBlockIxn_fold:
  "calculateBlockIxn s blockIndex boxSize invBoxSize (forces, totalEnergy) =
     (case fold (\<lambda>i. blockNeighborIxn s (loadBlock s blockIndex)
                       (periodic s \<and> nearBoxFace s (loadBlock s blockIndex) boxSize) boxSize invBoxSize
                       (getBlockNeighbors (neighborList s) blockIndex ! i)
                       (getBlockExclusions (neighborList s) blockIndex ! i))
             [0..<length (getBlockNeighbors (neighborList s) blockIndex)]
             (\<lambda>j. splat 0, forces, totalEnergy) of
        (blockAtomForce, forces', totalEnergy') \<Rightarrow>
          (fold (\<lambda>j f. storev (loadv f (4 * (getSortedAtoms (neighborList s) ! (4 * blockIndex + j)))
                                 + blockAtomForce j)
                          f (4 * (getSortedAtoms (neighborList s) ! (4 * blockIndex + j))))
             [0, 1, 2, 3] forces',
           totalEnergy'))"
proof -
  have np: "(if periodic s then nearBoxFace s (loadBlock s blockIndex) boxSize else False)
      = (periodic s \<and> nearBoxFace s (loadBlock s blockIndex) boxSize)"
    by simp
  show ?thesis
    unfolding calculateBlockIxn_def recordBlockForces_def Let_def prod.case np loadBlock_fields(1)
    by (simp add: case_prod_beta)
qed

text \<open>
  Claim C4, as written: in the scenario the computed \<^verbatim>\<open>dEdR\<close> is the value of the
  Lennard-Jones formula.  The value that \<^verbatim>\<open>calculateOneIxn\<close> computes and applies is the
  formula's value divided by \<open>r\<^sup>2 = 0.1089\<close> (line 424 multiplies by \<open>inverseR\<^sup>2\<close>): the force on
  atom 1 is the displacement \<open>0.33\<close> times that, not \<open>0.33\<close> times the formula's value.
\<close>

theorem scenario_dEdR_exceeds_formula:
  "fst (calculateOneIxn twoAtoms 0 1 (fst (boxVectors twoAtoms)) (snd (boxVectors twoAtoms))
         (\<lambda>k. 0, Some 0)) 4
     = 33 / 100 * (spec_ljForce 1 (1 / 2) (1 / 2) (spec_sig6 (3 / 10) (3 / 10) (100 / 33)) * (10000 / 1089))
   \<and> fst (calculateOneIxn twoAtoms 0 1 (fst (boxVectors twoAtoms)) (snd (boxVectors twoAtoms))
         (\<lambda>k. 0, Some 0)) 4
     \<noteq> 33 / 100 * spec_ljForce 1 (1 / 2) (1 / 2) (spec_sig6 (3 / 10) (3 / 10) (100 / 33))"
proof -
  let ?box = "fst (boxVectors twoAtoms)" and ?inv = "snd (boxVectors twoAtoms)"
  have d: "getDeltaR (loadv (posq twoAtoms) (4 * 1)) (loadv (posq twoAtoms) (4 * 0)) (periodic twoAtoms)
      ?box ?inv = (FVec4 (- (33 / 100)) 0 0 0, 1089 / 10000)"
    by (simp add: getDeltaR_exact twoAtoms_def newForce_def loadv_def minus_fvec4_def lane.simps)
  have inc: "\<not> (cutoff twoAtoms \<and> 1089 / 10000 \<ge> cutoffDistance twoAtoms * cutoffDistance twoAtoms)"
    by (simp add: twoAtoms_def newForce_def)
  have sw: "switchOne twoAtoms (sqrt (1089 / 10000)) = (1, 0)"
    by (simp add: switchOne_def twoAtoms_def newForce_def)
  have par: "atomParameters twoAtoms i = (3 / 10, 1 / 2)" "posq twoAtoms 3 = 0" "posq twoAtoms 7 = 0"
    "\<not> cutoff twoAtoms" for i
    by (simp_all add: twoAtoms_def newForce_def)
  define F where "F = spec_ljForce 1 (1 / 2) (1 / 2) (spec_sig6 (3 / 10) (3 / 10) (100 / 33))"
  have dE: "applied_dEdR twoAtoms 1 0 (3 / 10) (3 / 10) (1 / 2) (1 / 2) 0 (1089 / 10000) = F * (10000 / 1089)"
    by (simp add: applied_dEdR_def Let_def sqrt_1089 spec_coulombForce_def par F_def power2_eq_square)
  have F: "F = 1 / 4 * (12 * (20 / 11) ^ 6 - 6) * (20 / 11) ^ 6"
    by (simp add: F_def spec_ljForce_def spec_sig6_def)
  have pos: "0 < F"
    unfolding F by (simp add: power_divide)
  have val: "fst (calculateOneIxn twoAtoms 0 1 ?box ?inv (\<lambda>k. 0, Some 0)) 4 = 33 / 100 * (F * (10000 / 1089))"
    unfolding calculateOneIxn_spec[OF d inc sw] Let_def
    by (simp add: par dE storev_apply loadv_def lane.simps plus_fvec4_def minus_fvec4_def
        times_fvec4_def splat_def)
  have "33 / 100 * (F * (10000 / 1089)) \<noteq> 33 / 100 * F"
    using pos by simp
  with val show ?thesis
    unfolding F_def by simp
qed

text \<open>
  Claim C4, amended.  For a pair of atoms at different positions that passes the cutoff
  test, \<^verbatim>\<open>calculateOneIxn\<close> computes the Lennard-Jones terms of the specification, from
  \<open>sigma\<^sub>i + sigma\<^sub>j\<close> and \<open>eps\<^sub>i eps\<^sub>j\<close>; the Lennard-Jones term of \<^verbatim>\<open>dEdR\<close> is added to the
  Coulomb term and the sum is multiplied by \<open>inverseR\<^sup>2\<close> (and corrected for the switching)
  before it multiplies the displacement: the forces of the two atoms change by the
  displacement times \<open>applied_dEdR\<close>, with opposite signs, and the energy by \<open>pair_energy\<close>.
  \<^verbatim>\<open>calculateBlockIxn\<close> runs its neighbour loop on the block loaded from the sorted atoms and
  writes the forces of the block atoms back; one turn of the loop does in every included
  lane \<open>j\<close> what \<^verbatim>\<open>calculateOneIxn\<close> does, with the position, charge, \<open>sigma\<close> and \<open>epsilon\<close>
  of the block's atom \<open>j\<close>.
\<close>

theorem lennard_jones_terms:
  assumes "getDeltaR (loadv (posq s) (4 * jj)) (loadv (posq s) (4 * ii)) (periodic s) boxSize invBoxSize
      = (deltaR, r2)"
    and "0 < r2"
    and "\<not> (cutoff s \<and> r2 \<ge> cutoffDistance s * cutoffDistance s)"
    and "switchOne s (sqrt r2) = (switchValue, switchDeriv)"
    and "a = (\<lambda>j. getSortedAtoms (neighborList s) ! (4 * blockIndex + j))"
    and "getDeltaR_block (loadv (posq s) (4 * atom))
           (FVec4 (posq s (4 * a 0)) (posq s (4 * a 1)) (posq s (4 * a 2)) (posq s (4 * a 3)))
           (FVec4 (posq s (4 * a 0 + 1)) (posq s (4 * a 1 + 1)) (posq s (4 * a 2 + 1)) (posq s (4 * a 3 + 1)))
           (FVec4 (posq s (4 * a 0 + 2)) (posq s (4 * a 1 + 2)) (posq s (4 * a 2 + 2)) (posq s (4 * a 3 + 2)))
           needPeriodic boxSize invBoxSize = (dx, dy, dz, r2v)"
    and "\<forall>j<4. \<not> bit excl j \<and> (\<not> cutoff s \<or> lane r2v j < cutoffDistance s * cutoffDistance s)
           \<longrightarrow> 0 < lane r2v j"
    and "switchBlock s (vsqrt r2v) = (switchValueV, switchDerivV)"
  shows "calculateOneIxn s ii jj boxSize invBoxSize (forces, totalEnergy) =
      (let q = ONE_4PI_EPS0 s * posq s (4 * ii + 3) * posq s (4 * jj + 3);
           dEdR = applied_dEdR s switchValue switchDeriv (fst (atomParameters s ii)) (fst (atomParameters s jj))
                    (snd (atomParameters s ii)) (snd (atomParameters s jj)) q r2;
           energy = pair_energy s switchValue (fst (atomParameters s ii)) (fst (atomParameters s jj))
                    (snd (atomParameters s ii)) (snd (atomParameters s jj)) q r2;
           result = deltaR * splat dEdR;
           forces = storev (loadv forces (4 * ii) + result) forces (4 * ii);
           forces = storev (loadv forces (4 * jj) - result) forces (4 * jj)
       in (forces, map_option (\<lambda>e. e + energy) totalEnergy))
    \<and> applied_dEdR s switchValue switchDeriv (fst (atomParameters s ii)) (fst (atomParameters s jj))
          (snd (atomParameters s ii)) (snd (atomParameters s jj))
          (ONE_4PI_EPS0 s * posq s (4 * ii + 3) * posq s (4 * jj + 3)) r2 =
        (spec_ljForce switchValue (snd (atomParameters s ii)) (snd (atomParameters s jj))
           (spec_sig6 (fst (atomParameters s ii)) (fst (atomParameters s jj)) (1 / sqrt r2))
         + spec_coulombForce s (ONE_4PI_EPS0 s * posq s (4 * ii + 3) * posq s (4 * jj + 3)) r2) / r2
        - spec_ljEnergy (snd (atomParameters s ii)) (snd (atomParameters s jj))
            (spec_sig6 (fst (atomParameters s ii)) (fst (atomParameters s jj)) (1 / sqrt r2))
          * switchDeriv / sqrt r2
    \<and> calculateBlockIxn s blockIndex boxSize invBoxSize (forces, totalEnergy) =
       (case fold (\<lambda>i. blockNeighborIxn s (loadBlock s blockIndex)
                         (periodic s \<and> nearBoxFace s (loadBlock s blockIndex) boxSize) boxSize invBoxSize
                         (getBlockNeighbors (neighborList s) blockIndex ! i)
                         (getBlockExclusions (neighborList s) blockIndex ! i))
               [0..<length (getBlockNeighbors (neighborList s) blockIndex)]
               (\<lambda>j. splat 0, forces, totalEnergy) of
          (blockAtomForce, forces', totalEnergy') \<Rightarrow>
            (fold (\<lambda>j f. storev (loadv f (4 * a j) + blockAtomForce j) f (4 * a j)) [0, 1, 2, 3] forces',
             totalEnergy'))
    \<and> blockNeighborIxn s (loadBlock s blockIndex) needPeriodic boxSize invBoxSize atom excl
        (baf, forces, totalEnergy) =
      (let sigma = FVec4 (fst (atomParameters s (a 0))) (fst (atomParameters s (a 1)))
                         (fst (atomParameters s (a 2))) (fst (atomParameters s (a 3)));
           epsilon = FVec4 (snd (atomParameters s (a 0))) (snd (atomParameters s (a 1)))
                           (snd (atomParameters s (a 2))) (snd (atomParameters s (a 3)));
           charge = FVec4 (ONE_4PI_EPS0 s * posq s (4 * a 0 + 3)) (ONE_4PI_EPS0 s * posq s (4 * a 1 + 3))
                          (ONE_4PI_EPS0 s * posq s (4 * a 2 + 3)) (ONE_4PI_EPS0 s * posq s (4 * a 3 + 3));
           include = (\<lambda>j. \<not> bit excl j \<and> (\<not> cutoff s \<or> lane r2v j < cutoffDistance s * cutoffDistance s));
           dEdR = (\<lambda>j. applied_dEdR s (lane switchValueV j) (lane switchDerivV j)
                     (lane sigma j) (fst (atomParameters s atom))
                     (lane epsilon j) (snd (atomParameters s atom))
                     (lane charge j * posq s (4 * atom + 3)) (lane r2v j));
           energy = (\<lambda>j. pair_energy s (lane switchValueV j)
                     (lane sigma j) (fst (atomParameters s atom))
                     (lane epsilon j) (snd (atomParameters s atom))
                     (lane charge j * posq s (4 * atom + 3)) (lane r2v j));
           result = (\<lambda>j. FVec4 (lane dx j * dEdR j) (lane dy j * dEdR j) (lane dz j * dEdR j) 0)
       in (\<lambda>j. if j < 4 \<and> include j then baf j + result j else baf j,
           storev (fold (\<lambda>j af. if include j then af - result j else af) [0, 1, 2, 3]
                     (loadv forces (4 * atom))) forces (4 * atom),
           map_option (\<lambda>e. e + (\<Sum>j<4. if include j then energy j else 0)) totalEnergy))"
proof -
  have one: "calculateOneIxn s ii jj boxSize invBoxSize (forces, totalEnergy) =
      (let q = ONE_4PI_EPS0 s * posq s (4 * ii + 3) * posq s (4 * jj + 3);
           dEdR = applied_dEdR s switchValue switchDeriv (fst (atomParameters s ii)) (fst (atomParameters s jj))
                    (snd (atomParameters s ii)) (snd (atomParameters s jj)) q r2;
           energy = pair_energy s switchValue (fst (atomParameters s ii)) (fst (atomParameters s jj))
                    (snd (atomParameters s ii)) (snd (atomParameters s jj)) q r2;
           result = deltaR * splat dEdR;
           forces = storev (loadv forces (4 * ii) + result) forces (4 * ii);
           forces = storev (loadv forces (4 * jj) - result) forces (4 * jj)
       in (forces, map_option (\<lambda>e. e + energy) totalEnergy))"
    by (rule calculateOneIxn_spec[OF assms(1,3,4)])
  have "sqrt r2 * sqrt r2 = r2"
    using assms(2) by simp
  then have "(1 / sqrt r2)\<^sup>2 = 1 / r2"
    by (simp add: power2_eq_square)
  then have two: "applied_dEdR s switchValue switchDeriv (fst (atomParameters s ii)) (fst (atomParameters s jj))
          (snd (atomParameters s ii)) (snd (atomParameters s jj))
          (ONE_4PI_EPS0 s * posq s (4 * ii + 3) * posq s (4 * jj + 3)) r2 =
        (spec_ljForce switchValue (snd (atomParameters s ii)) (snd (atomParameters s jj))
           (spec_sig6 (fst (atomParameters s ii)) (fst (atomParameters s jj)) (1 / sqrt r2))
         + spec_coulombForce s (ONE_4PI_EPS0 s * posq s (4 * ii + 3) * posq s (4 * jj + 3)) r2) / r2
        - spec_ljEnergy (snd (atomParameters s ii)) (snd (atomParameters s jj))
            (spec_sig6 (fst (atomParameters s ii)) (fst (atomParameters s jj)) (1 / sqrt r2))
          * switchDeriv / sqrt r2"
    unfolding applied_dEdR_def Let_def by simp
  have three: "calculateBlockIxn s blockIndex boxSize invBoxSize (forces, totalEnergy) =
       (case fold (\<lambda>i. blockNeighborIxn s (loadBlock s blockIndex)
                         (periodic s \<and> nearBoxFace s (loadBlock s blockIndex) boxSize) boxSize invBoxSize
                         (getBlockNeighbors (neighborList s) blockIndex ! i)
                         (getBlockExclusions (neighborList s) blockIndex ! i))
               [0..<length (getBlockNeighbors (neighborList s) blockIndex)]
               (\<lambda>j. splat 0, forces, totalEnergy) of
          (blockAtomForce, forces', totalEnergy') \<Rightarrow>
            (fold (\<lambda>j f. storev (loadv f (4 * a j) + blockAtomForce j) f (4 * a j)) [0, 1, 2, 3] forces',
             totalEnergy'))"
    unfolding calculateBlockIxn_fold assms(5) ..
  have g: "getDeltaR_block (loadv (posq s) (4 * atom)) (blockAtomX (loadBlock s blockIndex))
      (blockAtomY (loadBlock s blockIndex)) (blockAtomZ (loadBlock s blockIndex))
      needPeriodic boxSize invBoxSize = (dx, dy, dz, r2v)"
    using assms(6) unfolding assms(5) loadBlock_fields by simp
  have four: "blockNeighborIxn s (loadBlock s blockIndex) needPeriodic boxSize invBoxSize atom excl
        (baf, forces, totalEnergy) =
      (let sigma = FVec4 (fst (atomParameters s (a 0))) (fst (atomParameters s (a 1)))
                         (fst (atomParameters s (a 2))) (fst (atomParameters s (a 3)));
           epsilon = FVec4 (snd (atomParameters s (a 0))) (snd (atomParameters s (a 1)))
                           (snd (atomParameters s (a 2))) (snd (atomParameters s (a 3)));
           charge = FVec4 (ONE_4PI_EPS0 s * posq s (4 * a 0 + 3)) (ONE_4PI_EPS0 s * posq s (4 * a 1 + 3))
                          (ONE_4PI_EPS0 s * posq s (4 * a 2 + 3)) (ONE_4PI_EPS0 s * posq s (4 * a 3 + 3));
           include = (\<lambda>j. \<not> bit excl j \<and> (\<not> cutoff s \<or> lane r2v j < cutoffDistance s * cutoffDistance s));
           dEdR = (\<lambda>j. applied_dEdR s (lane switchValueV j) (lane switchDerivV j)
                     (lane sigma j) (fst (atomParameters s atom))
                     (lane epsilon j) (snd (atomParameters s atom))
                     (lane charge j * posq s (4 * atom + 3)) (lane r2v j));
           energy = (\<lambda>j. pair_energy s (lane switchValueV j)
                     (lane sigma j) (fst (atomParameters s atom))
                     (lane epsilon j) (snd (atomParameters s atom))
                     (lane charge j * posq s (4 * atom + 3)) (lane r2v j));
           result = (\<lambda>j. FVec4 (lane dx j * dEdR j) (lane dy j * dEdR j) (lane dz j * dEdR j) 0)
       in (\<lambda>j. if j < 4 \<and> include j then baf j + result j else baf j,
           storev (fold (\<lambda>j af. if include j then af - result j else af) [0, 1, 2, 3]
                     (loadv forces (4 * atom))) forces (4 * atom),
           map_option (\<lambda>e. e + (\<Sum>j<4. if include j then energy j else 0)) totalEnergy))"
    unfolding blockNeighborIxn_spec[OF g assms(8)] loadBlock_fields assms(5) Let_def ..
  show ?thesis
    using one two three four by (intro conjI)
qed


lemma bit_14: "\<not> bit (14 :: int) 0" "bit (14 :: int) 1" "bit (14 :: int) 2" "bit (14 :: int) 3"
  by (simp_all add: bit_iff_odd)

lemma bit_14_iff: "j < 4 \<Longrightarrow> bit (14 :: int) j \<longleftrightarrow> j \<noteq> 0"
proof -
  assume "j < 4"
  then consider "j = 0" | "j = 1" | "j = 2" | "j = 3" by linarith
  then show ?thesis by cases (simp_all add: bit_14)
qed

text \<open>The scenario, on both paths: the factor applied is the Lennard-Jones term of the
  specification at \<open>sig6 = (0.6 / 0.33)\<^sup>6\<close>, divided by \<open>r\<^sup>2\<close>; it is positive (the atoms
  repel), atom 0 is pushed by \<open>- 0.33 dEdR\<close> and atom 1 by \<open>0.33 dEdR\<close> along x.\<close>

theorem lennard_jones_terms_witness:
  "fst (calculateOneIxn twoAtomsBlock 0 1 (fst (boxVectors twoAtomsBlock)) (snd (boxVectors twoAtomsBlock))
         (\<lambda>k. 0, Some 0)) 0
     = - (33 / 100) * (spec_ljForce 1 (1 / 2) (1 / 2) (spec_sig6 (3 / 10) (3 / 10) (100 / 33)) / (1089 / 10000))
   \<and> fst (calculateOneIxn twoAtomsBlock 0 1 (fst (boxVectors twoAtomsBlock)) (snd (boxVectors twoAtomsBlock))
         (\<lambda>k. 0, Some 0)) 4
     = 33 / 100 * (spec_ljForce 1 (1 / 2) (1 / 2) (spec_sig6 (3 / 10) (3 / 10) (100 / 33)) / (1089 / 10000))
   \<and> snd (calculateOneIxn twoAtomsBlock 0 1 (fst (boxVectors twoAtomsBlock)) (snd (boxVectors twoAtomsBlock))
         (\<lambda>k. 0, Some 0))
     = Some (spec_ljEnergy (1 / 2) (1 / 2) (spec_sig6 (3 / 10) (3 / 10) (100 / 33)))
   \<and> fst (calculateBlockIxn twoAtomsBlock 0 (fst (boxVectors twoAtomsBlock)) (snd (boxVectors twoAtomsBlock))
         (\<lambda>k. 0, Some 0)) 0
     = - (33 / 100) * (spec_ljForce 1 (1 / 2) (1 / 2) (spec_sig6 (3 / 10) (3 / 10) (100 / 33)) / (1089 / 10000))
   \<and> fst (calculateBlockIxn twoAtomsBlock 0 (fst (boxVectors twoAtomsBlock)) (snd (boxVectors twoAtomsBlock))
         (\<lambda>k. 0, Some 0)) 4
     = 33 / 100 * (spec_ljForce 1 (1 / 2) (1 / 2) (spec_sig6 (3 / 10) (3 / 10) (100 / 33)) / (1089 / 10000))
   \<and> snd (calculateBlockIxn twoAtomsBlock 0 (fst (boxVectors twoAtomsBlock)) (snd (boxVectors twoAtomsBlock))
         (\<lambda>k. 0, Some 0))
     = Some (spec_ljEnergy (1 / 2) (1 / 2) (spec_sig6 (3 / 10) (3 / 10) (100 / 33)))
   \<and> spec_sig6 (3 / 10) (3 / 10) (100 / 33) = (20 / 11) ^ 6
   \<and> spec_ljForce 1 (1 / 2) (1 / 2) (spec_sig6 (3 / 10) (3 / 10) (100 / 33))
     = 1 / 4 * (12 * (20 / 11) ^ 6 - 6) * (20 / 11) ^ 6
   \<and> 0 < spec_ljForce 1 (1 / 2) (1 / 2) (spec_sig6 (3 / 10) (3 / 10) (100 / 33))"
proof -
  let ?s = twoAtomsBlock
  let ?box = "fst (boxVectors ?s)" and ?inv = "snd (boxVectors ?s)"
  let ?a = "\<lambda>j. getSortedAtoms (neighborList ?s) ! (4 * 0 + j)"
  have posq: "posq ?s k = (if k = 4 then 33 / 100 else 0)" for k
    by (simp add: twoAtomsBlock_def twoAtoms_def)
  have par: "atomParameters ?s i = (3 / 10, 1 / 2)" "\<not> cutoff ?s" "\<not> periodic ?s" "\<not> useSwitch ?s" for i
    by (simp_all add: twoAtomsBlock_def twoAtoms_def newForce_def)
  have nl: "getSortedAtoms (neighborList ?s) = [0, 0, 0, 0]"
    "getBlockNeighbors (neighborList ?s) 0 = [1]" "getBlockExclusions (neighborList ?s) 0 = [14]"
    by (simp_all add: twoAtomsBlock_def pairList_def)
  have a: "?a 0 = 0" "?a 1 = 0" "?a 2 = 0" "?a 3 = 0"
    by (simp_all add: nl)
  have d: "getDeltaR (loadv (posq ?s) (4 * 1)) (loadv (posq ?s) (4 * 0)) (periodic ?s)
      ?box ?inv = (FVec4 (- (33 / 100)) 0 0 0, 1089 / 10000)"
    by (simp add: getDeltaR_exact posq par loadv_def minus_fvec4_def lane.simps)
  have r2: "(0::real) < 1089 / 10000"
    by simp
  have inc: "\<not> (cutoff ?s \<and> 1089 / 10000 \<ge> cutoffDistance ?s * cutoffDistance ?s)"
    by (simp add: par)
  have sw: "switchOne ?s (sqrt (1089 / 10000)) = (1, 0)"
    by (simp add: switchOne_def par)
  have aeq: "?a = (\<lambda>j. getSortedAtoms (neighborList ?s) ! (4 * 0 + j))"
    by (rule refl)
  have g: "getDeltaR_block (loadv (posq ?s) (4 * 1))
           (FVec4 (posq ?s (4 * ?a 0)) (posq ?s (4 * ?a 1)) (posq ?s (4 * ?a 2)) (posq ?s (4 * ?a 3)))
           (FVec4 (posq ?s (4 * ?a 0 + 1)) (posq ?s (4 * ?a 1 + 1)) (posq ?s (4 * ?a 2 + 1)) (posq ?s (4 * ?a 3 + 1)))
           (FVec4 (posq ?s (4 * ?a 0 + 2)) (posq ?s (4 * ?a 1 + 2)) (posq ?s (4 * ?a 2 + 2)) (posq ?s (4 * ?a 3 + 2)))
           False ?box ?inv
      = (splat (- (33 / 100)), splat 0, splat 0, splat (1089 / 10000))"
    unfolding a
    by (simp add: getDeltaR_block_exact posq loadv_def minus_fvec4_def times_fvec4_def plus_fvec4_def
        splat_def lane.simps Let_def)
  have lanes: "\<forall>j<4. \<not> bit (14 :: int) j
        \<and> (\<not> cutoff ?s \<or> lane (splat (1089 / 10000)) j < cutoffDistance ?s * cutoffDistance ?s)
        \<longrightarrow> 0 < lane (splat (1089 / 10000)) j"
    by simp
  have swv: "switchBlock ?s (vsqrt (splat (1089 / 10000))) = (splat 1, splat 0)"
    by (simp add: switchBlock_def par)
  note inst = lennard_jones_terms[OF d r2 inc sw aeq g lanes swv,
      where forces = "\<lambda>k. 0" and totalEnergy = "Some 0" and baf = "\<lambda>j. splat 0"]
  define F where "F = spec_ljForce 1 (1 / 2) (1 / 2) (spec_sig6 (3 / 10) (3 / 10) (100 / 33))"
  define E where "E = spec_ljEnergy (1 / 2) (1 / 2) (spec_sig6 (3 / 10) (3 / 10) (100 / 33))"
  have dE: "applied_dEdR ?s 1 0 (3 / 10) (3 / 10) (1 / 2) (1 / 2) 0 (1089 / 10000) = F / (1089 / 10000)"
    by (simp add: applied_dEdR_def Let_def sqrt_1089 spec_coulombForce_def par F_def power2_eq_square)
  have en: "pair_energy ?s 1 (3 / 10) (3 / 10) (1 / 2) (1 / 2) 0 (1089 / 10000) = E"
    by (simp add: pair_energy_def sqrt_1089 spec_coulombEnergy_def par E_def)
  have s6: "spec_sig6 (3 / 10) (3 / 10) (100 / 33) = (20 / 11) ^ 6"
    by (simp add: spec_sig6_def)
  have lj: "F = 1 / 4 * (12 * (20 / 11) ^ 6 - 6) * (20 / 11) ^ 6"
    unfolding F_def s6 by (simp add: spec_ljForce_def)
  have pos: "0 < F"
    unfolding lj by (simp add: power_divide)
  define D where "D = F / (1089 / 10000)"
  have one: "calculateOneIxn ?s 0 1 ?box ?inv (\<lambda>k. 0, Some 0) =
      (storev (loadv (storev (loadv (\<lambda>k. 0) 0 + FVec4 (- (33 / 100)) 0 0 0 * splat D) (\<lambda>k. 0) 0) 4
                 - FVec4 (- (33 / 100)) 0 0 0 * splat D)
         (storev (loadv (\<lambda>k. 0) 0 + FVec4 (- (33 / 100)) 0 0 0 * splat D) (\<lambda>k. 0) 0) 4,
       Some E)"
    unfolding inst[THEN conjunct1] Let_def
    by (simp add: par posq dE en D_def)
  have o0: "fst (calculateOneIxn ?s 0 1 ?box ?inv (\<lambda>k. 0, Some 0)) 0 = - (33 / 100) * D"
    unfolding one by (simp add: storev_apply loadv_def lane.simps plus_fvec4_def times_fvec4_def splat_def)
  have o4: "fst (calculateOneIxn ?s 0 1 ?box ?inv (\<lambda>k. 0, Some 0)) 4 = 33 / 100 * D"
    unfolding one
    by (simp add: storev_apply loadv_def lane.simps plus_fvec4_def minus_fvec4_def times_fvec4_def splat_def)
  have oe: "snd (calculateOneIxn ?s 0 1 ?box ?inv (\<lambda>k. 0, Some 0)) = Some E"
    unfolding one by simp
  have turn: "blockNeighborIxn ?s (loadBlock ?s 0) False ?box ?inv 1 14 (\<lambda>j. splat 0, \<lambda>k. 0, Some 0) =
      (\<lambda>j. if j = 0 then FVec4 (- (33 / 100) * D) 0 0 0 else splat 0,
       storev (FVec4 (33 / 100 * D) 0 0 0) (\<lambda>k. 0) 4, Some E)"
    unfolding inst[THEN conjunct2, THEN conjunct2, THEN conjunct2] Let_def a
    by (auto simp add: par posq dE en D_def bit_14 bit_14_iff sum_lessThan_4 loadv_def lane.simps splat_def
        plus_fvec4_def minus_fvec4_def times_fvec4_def fun_eq_iff)
  have blk: "calculateBlockIxn ?s 0 ?box ?inv (\<lambda>k. 0, Some 0) =
      (fold (\<lambda>j f. storev (loadv f 0 + (if j = (0::nat) then FVec4 (- (33 / 100) * D) 0 0 0 else splat 0)) f 0)
         [0, 1, 2, 3] (storev (FVec4 (33 / 100 * D) 0 0 0) (\<lambda>k. 0) 4), Some E)"
    unfolding inst[THEN conjunct2, THEN conjunct2, THEN conjunct1] nl
    using turn by (simp add: par nl)
  have b0: "fst (calculateBlockIxn ?s 0 ?box ?inv (\<lambda>k. 0, Some 0)) 0 = - (33 / 100) * D"
    unfolding blk by (simp add: storev_apply loadv_def lane.simps plus_fvec4_def splat_def)
  have b4: "fst (calculateBlockIxn ?s 0 ?box ?inv (\<lambda>k. 0, Some 0)) 4 = 33 / 100 * D"
    unfolding blk by (simp add: storev_apply loadv_def lane.simps plus_fvec4_def splat_def)
  have be: "snd (calculateBlockIxn ?s 0 ?box ?inv (\<lambda>k. 0, Some 0)) = Some E"
    unfolding blk by simp
  show ?thesis
    using o0 o4 oe b0 b4 be s6 lj pos unfolding D_def E_def F_def by simp
qed

section \<open>Table lookups beyond the table\<close>



lemma toInt32_less:
  "\<lfloor>x\<rfloor> < n \<Longrightarrow> 0 \<le> n \<Longrightarrow> toInt32 x < n"
  by (simp add: toInt32_def)






















section \<open>The k-vectors of the reciprocal-space loop\<close>

lemma rzLoop_fold:
  "rzLoop nz body rx ry rz (lowrz, s) =
     (if rz < nz then 1 - nz else lowrz, fold (body rx ry) [rz..nz - 1] s)"
proof (induction nz body rx ry rz "(lowrz, s)" arbitrary: lowrz s rule: rzLoop.induct)
  case (1 nz body rx ry rz lowrz s)
  show ?case
  proof (cases "rz < nz")
    case True
    then have "[rz..nz - 1] = rz # [rz + 1..nz - 1]"
      by (simp add: upto_rec1)
    with True "1" show ?thesis by (subst rzLoop.simps) simp
  next
    case False
    then show ?thesis by (subst rzLoop.simps) simp
  qed
qed

lemma ryLoop_fold:
  "1 \<le> nz \<Longrightarrow> lowrz = 1 - nz \<Longrightarrow>
   ryLoop ny nz body rx ry (lowry, lowrz, s) =
     (if ry < ny then 1 - ny else lowry, 1 - nz,
      fold (\<lambda>y. fold (body rx y) [1 - nz..nz - 1]) [ry..ny - 1] s)"
proof (induction ny nz body rx ry "(lowry, lowrz, s)" arbitrary: lowry lowrz s rule: ryLoop.induct)
  case (1 ny nz body rx ry lowry lowrz s)
  show ?case
  proof (cases "ry < ny")
    case True
    then have u: "[ry..ny - 1] = ry # [ry + 1..ny - 1]"
      by (simp add: upto_rec1)
    have rz: "rzLoop nz body rx ry lowrz (lowrz, s) =
        (1 - nz, fold (body rx ry) [1 - nz..nz - 1] s)"
      using "1.prems" by (simp add: rzLoop_fold)
    have "ryLoop ny nz body rx ry (lowry, lowrz, s) =
        ryLoop ny nz body rx (ry + 1)
          (1 - ny, 1 - nz, fold (body rx ry) [1 - nz..nz - 1] s)"
      using True by (subst ryLoop.simps) (simp add: rz)
    also have "\<dots> = (if ry + 1 < ny then 1 - ny else 1 - ny, 1 - nz,
        fold (\<lambda>y. fold (body rx y) [1 - nz..nz - 1]) [ry + 1..ny - 1]
          (fold (body rx ry) [1 - nz..nz - 1] s))"
      by (rule "1.hyps"[OF True rz[symmetric]]) (use "1.prems" in simp_all)
    finally show ?thesis using True by (simp add: u)
  next
    case False
    then show ?thesis using "1.prems" by (subst ryLoop.simps) simp
  qed
qed

lemma rxLoop_fold:
  "1 \<le> nz \<Longrightarrow> 1 \<le> ny \<Longrightarrow> lowry = 1 - ny \<Longrightarrow> lowrz = 1 - nz \<Longrightarrow>
   rxLoop nx ny nz body rx (lowry, lowrz, s) =
     (1 - ny, 1 - nz,
      fold (\<lambda>x. fold (\<lambda>y. fold (body x y) [1 - nz..nz - 1]) [1 - ny..ny - 1])
        [rx..nx - 1] s)"
proof (induction nx ny nz body rx "(lowry, lowrz, s)" arbitrary: lowry lowrz s rule: rxLoop.induct)
  case (1 nx ny nz body rx lowry lowrz s)
  show ?case
  proof (cases "rx < nx")
    case True
    then have u: "[rx..nx - 1] = rx # [rx + 1..nx - 1]"
      by (simp add: upto_rec1)
    have ry: "ryLoop ny nz body rx lowry (lowry, lowrz, s) =
        (1 - ny, 1 - nz,
         fold (\<lambda>y. fold (body rx y) [1 - nz..nz - 1]) [1 - ny..ny - 1] s)"
      using "1.prems" by (simp add: ryLoop_fold)
    have "rxLoop nx ny nz body rx (lowry, lowrz, s) =
        rxLoop nx ny nz body (rx + 1) (1 - ny, 1 - nz,
         fold (\<lambda>y. fold (body rx y) [1 - nz..nz - 1]) [1 - ny..ny - 1] s)"
      using True by (subst rxLoop.simps) (simp add: ry)
    also have "\<dots> = (1 - ny, 1 - nz,
        fold (\<lambda>x. fold (\<lambda>y. fold (body x y) [1 - nz..nz - 1]) [1 - ny..ny - 1])
          [rx + 1..nx - 1]
          (fold (\<lambda>y. fold (body rx y) [1 - nz..nz - 1]) [1 - ny..ny - 1] s))"
      by (rule "1.hyps"[OF True ry]) (use "1.prems" in simp_all)
    finally show ?thesis by (simp add: u)
  next
    case False
    then show ?thesis using "1.prems" by (subst rxLoop.simps) simp
  qed
qed


lemma fold_fold_product:
  "fold (\<lambda>x. fold (f x) ys) xs s = fold (\<lambda>(x, y). f x y) (List.product xs ys) s"
  by (induction xs arbitrary: s) (simp_all add: fold_map comp_def)

lemma fold_fold_fold_product:
  "fold (\<lambda>x. fold (\<lambda>y. fold (body x y) zs) ys) xs s =
   fold (\<lambda>(x, y, z). body x y z) (List.product xs (List.product ys zs)) s"
proof -
  have "(\<lambda>x. fold (\<lambda>y. fold (body x y) zs) ys) =
      (\<lambda>x. fold (\<lambda>(y, z). body x y z) (List.product ys zs))"
    by (rule ext)+ (rule fold_fold_product)
  then show ?thesis
    by (simp add: fold_fold_product[where f = "\<lambda>x (y, z). body x y z"])
qed

lemma reciprocalLoop_fold:
  assumes "ewald s" "\<not> pme s" "1 \<le> numRx s" "1 \<le> numRy s" "2 \<le> numRz s"
  shows "reciprocalLoop s body st =
     fold (\<lambda>(rx, ry, rz). body rx ry rz) (kvecs (numRx s) (numRy s) (numRz s)) st"
proof -
  define nx ny nz where nn: "nx = numRx s" "ny = numRy s" "nz = numRz s"
  have n: "1 \<le> nx" "1 \<le> ny" "2 \<le> nz"
    using assms by (simp_all add: nn)
  let ?zs = "[1 - nz..nz - 1]"
  let ?ys = "[1 - ny..ny - 1]"
  define s1 where "s1 = fold (body 0 0) [1..nz - 1] st"
  define s2 where "s2 = fold (\<lambda>y. fold (body 0 y) ?zs) [1..ny - 1] s1"
  have rz0: "rzLoop nz body 0 0 1 (1, st) = (1 - nz, s1)"
    using n by (simp add: rzLoop_fold s1_def)
  have ry0: "ryLoop ny nz body 0 0 (0, 1, st) = (1 - ny, 1 - nz, s2)"
  proof -
    have "ryLoop ny nz body 0 0 (0, 1, st) =
        ryLoop ny nz body 0 (0 + 1) (1 - ny, 1 - nz, s1)"
      using n by (subst ryLoop.simps) (simp add: rz0)
    also have "\<dots> = (1 - ny, 1 - nz, s2)"
      using n by (subst ryLoop_fold) (simp_all add: s2_def)
    finally show ?thesis .
  qed
  have "rxLoop nx ny nz body 0 (0, 1, st) =
      rxLoop nx ny nz body (0 + 1) (1 - ny, 1 - nz, s2)"
    using n by (subst rxLoop.simps) (simp add: ry0)
  also have "\<dots> = (1 - ny, 1 - nz,
      fold (\<lambda>x. fold (\<lambda>y. fold (body x y) ?zs) ?ys) [1..nx - 1] s2)"
    using n by (subst rxLoop_fold) simp_all
  finally have "reciprocalLoop s body st =
      fold (\<lambda>x. fold (\<lambda>y. fold (body x y) ?zs) ?ys) [1..nx - 1] s2"
    using assms(1,2) by (simp add: reciprocalLoop_def nn)
  moreover have "s1 = fold (\<lambda>x. fold (\<lambda>y. fold (body x y) [1..nz - 1]) [0]) [0] st"
    by (simp add: s1_def)
  moreover have "s2 = fold (\<lambda>x. fold (\<lambda>y. fold (body x y) ?zs) [1..ny - 1]) [0] s1"
    by (simp add: s2_def)
  ultimately show ?thesis
    unfolding kvecs_def fold_append comp_def fold_fold_fold_product nn by simp
qed

lemma fold_visit: "fold (\<lambda>(rx, ry, rz). visit rx ry rz) ks acc = acc @ ks"
  by (induction ks arbitrary: acc) (auto simp: visit_def)

lemma set_kvecs:
  "1 \<le> nx \<Longrightarrow> 1 \<le> ny \<Longrightarrow> 2 \<le> nz \<Longrightarrow> set (kvecs nx ny nz) = halfSpace nx ny nz"
  unfolding kvecs_def halfSpace_def set_append set_product set_upto
  by (auto; linarith)

lemma distinct_kvecs: "distinct (kvecs nx ny nz)"
  by (auto simp: kvecs_def distinct_product distinct_map inj_on_def)

text \<open>
  In the Ewald branch and with \<open>numRz \<ge> 2\<close> the loop nest hands to its body, whatever the body is, the k-vectors of
  the half space, each once, in the order of \<open>kvecs\<close>.
\<close>

lemma reciprocalVisited_half_space:
  assumes "ewald s" "\<not> pme s" "1 \<le> numRx s" "1 \<le> numRy s" "2 \<le> numRz s"
  shows "distinct (reciprocalVisited s)
    \<and> set (reciprocalVisited s) = halfSpace (numRx s) (numRy s) (numRz s)"
  using assms by (simp add: reciprocalVisited_def reciprocalLoop_fold fold_visit set_kvecs distinct_kvecs)

text \<open>With \<open>numRz = 1\<close> the innermost loop never runs, \<^verbatim>\<open>lowrz\<close> keeps its initial value
  \<open>1\<close>, and the body is never reached.\<close>

lemma reciprocalLoop_numRz_1:
  assumes "numRz s = 1"
  shows "reciprocalLoop s body st = st"
proof -
  define nx ny where nn: "nx = numRx s" "ny = numRy s"
  have rz: "rzLoop 1 body rx ry 1 (1, t) = (1, t)" for rx ry t
    by (subst rzLoop.simps) simp
  have ry: "ryLoop ny 1 body rx ry (lowry, 1, t) = (if ry < ny then 1 - ny else lowry, 1, t)"
    for rx ry lowry t
  proof (induction "nat (ny - ry)" arbitrary: ry lowry)
    case 0
    then show ?case by (subst ryLoop.simps) simp
  next
    case (Suc n)
    then have lt: "ry < ny" and n: "n = nat (ny - (ry + 1))" by linarith+
    show ?case
      using lt Suc.hyps(1)[OF n, of "1 - ny"] by (subst ryLoop.simps) (simp add: rz)
  qed
  have rx: "snd (snd (rxLoop nx ny 1 body rx (lowry, 1, t))) = t" for rx lowry t
  proof (induction "nat (nx - rx)" arbitrary: rx lowry)
    case 0
    then show ?case by (subst rxLoop.simps) simp
  next
    case (Suc n)
    then have lt: "rx < nx" and n: "n = nat (nx - (rx + 1))" by linarith+
    show ?case
      using lt Suc.hyps(1)[OF n] by (subst rxLoop.simps) (simp add: ry)
  qed
  show ?thesis using assms rx[of 0 0 st] by (simp add: reciprocalLoop_def nn)
qed

text \<open>
  Claim C1.  The reciprocal-space loop is claimed to visit, for all \<open>numRx, numRy, numRz \<ge> 1\<close>,
  exactly the k-vectors of the half space.  For the Ewald configuration with \<open>numRx = 2\<close>,
  \<open>numRy = 1\<close>, \<open>numRz = 1\<close> the half space holds the vector \<open>(1, 0, 0)\<close>, and the loop
  visits no vector at all.
\<close>

theorem reciprocal_loop_misses_half_space_when_numRz_is_1:
  "reciprocalVisited (newForce\<lparr>ewald := True, numRx := 2, numRy := 1, numRz := 1\<rparr>) = []
   \<and> (1, 0, 0) \<in> halfSpace 2 1 1"
  by (simp add: reciprocalVisited_def reciprocalLoop_numRz_1 halfSpace_def)

end
